theory Spec2Isabelle
  imports Main
begin

section \<open>Errors\<close>

text \<open>
  The library reports every failure as a Go \<open>error\<close> built from a message. One
  constructor stands for each message the source builds, carrying the value that is
  formatted into it:
  \<^item> \<open>MissingParameter p\<close>: \<^verbatim>\<open>errors.New("you must provide the `p` parameter")\<close>;
  \<^item> \<open>InvalidParameter p\<close>: \<^verbatim>\<open>fmt.Errorf("invalid parameter: %s", p)\<close>;
  \<^item> \<open>UnsupportedLanguage l\<close>: \<^verbatim>\<open>fmt.Errorf("invalid language: %s", l)\<close>;
  \<^item> \<open>TransportError c\<close>: \<^verbatim>\<open>fmt.Errorf("HTTP request failed with status code: %d", c)\<close>;
  \<^item> \<open>APIError d\<close>: \<^verbatim>\<open>fmt.Errorf("API error: %s", d)\<close>;
  \<^item> \<open>MalformedEnvelope\<close>: \<^verbatim>\<open>errors.New("invalid response format: missing data field")\<close>;
  \<^item> \<open>LibraryError e\<close>: an error handed back by \<open>net/http\<close> or
    \<open>encoding/json\<close> and returned unchanged.
  A Go value of type \<open>error\<close> is an \<open>error option\<close>, \<open>None\<close> being \<open>nil\<close>.
\<close>

datatype error =
    MissingParameter string
  | InvalidParameter string
  | UnsupportedLanguage string
  | TransportError int
  | APIError string
  | MalformedEnvelope
  | LibraryError string

section \<open>Values, client handle, requests and the external library\<close>

text \<open>
  A Go \<open>interface{}\<close> value as \<open>encoding/json\<close> produces it and as the payload
  maps hold it. A JSON object is a finite map from keys to values. Go decodes JSON
  numbers to \<open>float64\<close>; no operation of the library inspects a number, and the
  model carries an integer in its place.
\<close>

datatype jvalue =
    JNull
  | JBool bool
  | JNum int
  | JStr string
  | JArr "jvalue list"
  | JObj "string \<Rightarrow> jvalue option"

text \<open>
  A Go \<open>map[string]interface{}\<close>: \<open>None\<close> is the nil map, which reads as the
  empty map and panics when written. A Go slice likewise: \<open>None\<close> is the nil slice.
\<close>

type_synonym gomap = "(string \<Rightarrow> jvalue option) option"

definition entries :: "gomap \<Rightarrow> string \<Rightarrow> jvalue option" where
  "entries m = (case m of None \<Rightarrow> Map.empty | Some f \<Rightarrow> f)"

definition elems :: "'a list option \<Rightarrow> 'a list" where
  "elems s = (case s of None \<Rightarrow> [] | Some xs \<Rightarrow> xs)"

definition mapValue :: "gomap \<Rightarrow> jvalue" where
  "mapValue m = (case m of None \<Rightarrow> JNull | Some f \<Rightarrow> JObj f)"

text \<open>The client handle, types.go, lines 4-8.\<close>

record Greip =
  token :: string
  BaseURL :: string
  test :: bool

text \<open>
  An HTTP request as handed to \<open>client.Do\<close>. \<open>RawQuery\<close> holds the
  \<open>url.Values\<close> (each key with its list of values) that \<open>Encode\<close> writes into the
  URL; \<open>ReqBody\<close> holds the bytes of the body, \<open>None\<close> for no body.
\<close>

record request =
  Method :: string
  URL :: string
  Header :: "string \<Rightarrow> string option"
  RawQuery :: "string \<Rightarrow> string list option"
  ReqBody :: "string option"

record response =
  StatusCode :: int
  RespBody :: string

text \<open>
  The external collaborators of the library: \<open>net/http\<close>, \<open>net/url\<close>,
  \<open>fmt\<close>, \<open>encoding/json\<close> and the Unicode tables behind \<open>strings\<close>.
  They are parameters of the model; every theorem holds for all of them.
  \<^item> \<open>url_Parse u\<close>: the parse of the URL inside \<open>http.NewRequest\<close>; either its
    error or the query values \<open>req.URL.Query()\<close> reads from \<open>u\<close>;
  \<^item> \<open>client_Do req\<close>: the network exchange, an error or the response;
  \<^item> \<open>sprint_other v\<close>: \<open>fmt.Sprintf("%v", v)\<close> for a value that is not a string;
  \<^item> \<open>json_Marshal v\<close>: an error or the bytes;
  \<^item> \<open>json_Decode b\<close>: \<open>json.NewDecoder(body).Decode(&jsonResponse)\<close> into a
    \<open>map[string]interface{}\<close>;
  \<^item> \<open>json_Unmarshal b t\<close>: \<open>json.Unmarshal(b, responseType)\<close> on the target
    \<open>t\<close>: the error, if any, and the target as the call leaves it (a failed call may
    have filled part of it);
  \<^item> \<open>unicode_ToUpper s\<close>, \<open>unicode_ToLower s\<close>: \<open>strings.Map\<close> of
    \<open>unicode.ToUpper\<close> (resp. \<open>unicode.ToLower\<close>) over \<open>s\<close>, which
    \<open>strings.ToUpper\<close> (resp. \<open>strings.ToLower\<close>) returns for a string that
    holds a byte from 0x80 on.
\<close>

record 'r stdlib =
  url_Parse :: "string \<Rightarrow> string + (string \<Rightarrow> string list option)"
  client_Do :: "request \<Rightarrow> string + response"
  sprint_other :: "jvalue \<Rightarrow> string"
  json_Marshal :: "jvalue \<Rightarrow> string + string"
  json_Decode :: "string \<Rightarrow> string + (string \<Rightarrow> jvalue option)"
  json_Unmarshal :: "string \<Rightarrow> 'r \<Rightarrow> string option \<times> 'r"
  unicode_ToUpper :: "string \<Rightarrow> string"
  unicode_ToLower :: "string \<Rightarrow> string"

text \<open>
  A call either panics or returns. Every executor and endpoint method is paired with
  the list of requests it handed to \<open>client.Do\<close>, in order: the network accesses of
  the call.
\<close>

datatype panic = IndexOutOfRange | InterfaceConversion | NilMapAssignment

datatype 'a outcome = Panicked panic | Returned 'a

section \<open>Strings\<close>

text \<open>
  Go strings are byte sequences; they are modelled as \<open>string\<close> (a list of 8-bit
  characters). \<open>strings.ToUpper\<close> and \<open>strings.ToLower\<close> follow the Go library:
  a string whose bytes are all below 0x80 (\<open>utf8.RuneSelf\<close>) is mapped byte by byte,
  a byte in \<open>'a'..'z'\<close> (resp. \<open>'A'..'Z'\<close>) being replaced by its counterpart and
  every other byte kept; any other string is handed to \<open>Map(unicode.ToUpper, s)\<close>
  (resp. \<open>Map(unicode.ToLower, s)\<close>), the mapping of the decoded runes by the Unicode
  tables, which is a parameter of the model (for instance, Go maps the rune U+017F to
  \<open>S\<close>).
\<close>

definition isASCII :: "string \<Rightarrow> bool" where
  "isASCII s = list_all (\<lambda>c. (of_char c :: nat) < 128) s"

definition lowerLetters :: string where
  "lowerLetters = ''abcdefghijklmnopqrstuvwxyz''"

definition upperLetters :: string where
  "upperLetters = ''ABCDEFGHIJKLMNOPQRSTUVWXYZ''"

definition upperByte :: "char \<Rightarrow> char" where
  "upperByte c = (case map_of (zip lowerLetters upperLetters) c of None \<Rightarrow> c | Some u \<Rightarrow> u)"

definition lowerByte :: "char \<Rightarrow> char" where
  "lowerByte c = (case map_of (zip upperLetters lowerLetters) c of None \<Rightarrow> c | Some l \<Rightarrow> l)"

definition ToUpper :: "'r stdlib \<Rightarrow> string \<Rightarrow> string" where
  "ToUpper env s = (if isASCII s then map upperByte s else unicode_ToUpper env s)"

definition ToLower :: "'r stdlib \<Rightarrow> string \<Rightarrow> string" where
  "ToLower env s = (if isASCII s then map lowerByte s else unicode_ToLower env s)"

text \<open>\<open>strings.Join(elems, sep)\<close>.\<close>

fun Join :: "string list \<Rightarrow> string \<Rightarrow> string" where
  "Join [] sep = []"
| "Join [x] sep = x"
| "Join (x # y # ys) sep = x @ sep @ Join (y # ys) sep"

section \<open>Validators (helpers.go)\<close>

text \<open>\<open>contains(slice, item)\<close>: the linear scan of helpers.go, lines 170-177.\<close>

fun contains :: "string list \<Rightarrow> string \<Rightarrow> bool" where
  "contains [] item = False"
| "contains (v # slice) item = (if v = item then True else contains slice item)"

text \<open>\<open>validateParams(params, availableParams)\<close>, helpers.go, lines 151-158.\<close>

fun validateParams :: "string list \<Rightarrow> string list \<Rightarrow> error option" where
  "validateParams [] availableParams = None"
| "validateParams (param # params) availableParams =
     (if \<not> contains availableParams param then Some (InvalidParameter param)
      else validateParams params availableParams)"

definition allowedLangs :: "string list" where
  "allowedLangs = [''EN'', ''AR'', ''DE'', ''FR'', ''ES'', ''JA'', ''ZH'', ''RU'']"

text \<open>\<open>validateLang(lang)\<close>, helpers.go, lines 161-167.\<close>

definition validateLang :: "'r stdlib \<Rightarrow> string \<Rightarrow> error option" where
  "validateLang env lang =
     (if \<not> contains allowedLangs (ToUpper env lang) then Some (UnsupportedLanguage lang)
      else None)"

section \<open>Request executors (helpers.go)\<close>

text \<open>\<open>fmt.Sprintf("%v", value)\<close>: a string is printed as it is.\<close>

definition sprintf_v :: "'r stdlib \<Rightarrow> jvalue \<Rightarrow> string" where
  "sprintf_v env v = (case v of JStr s \<Rightarrow> s | _ \<Rightarrow> sprint_other env v)"

text \<open>
  helpers.go, lines 36-38: \<open>query.Add(key, fmt.Sprintf("%v", value))\<close> for every
  entry of the payload map. \<open>Add\<close> appends to the values of \<open>key\<close> and touches no
  other key, and a map holds a key once, so the result does not depend on the order
  in which Go walks the map.
\<close>

definition addPayload ::
  "'r stdlib \<Rightarrow> (string \<Rightarrow> string list option) \<Rightarrow> gomap \<Rightarrow> string \<Rightarrow> string list option" where
  "addPayload env query p =
     (\<lambda>key. case entries p key of
              None \<Rightarrow> query key
            | Some v \<Rightarrow> Some ((case query key of None \<Rightarrow> [] | Some vs \<Rightarrow> vs) @ [sprintf_v env v]))"

text \<open>helpers.go, lines 28-31: the body of the test-mode branch of \<open>getRequest\<close>.\<close>

definition setTestMode :: "gomap list \<Rightarrow> gomap list" where
  "setTestMode payload =
     (case payload of
        [] \<Rightarrow> []
      | p0 # rest \<Rightarrow> Some ((entries p0)(''mode'' \<mapsto> JStr ''test'')) # rest)"

definition authHeader :: "Greip \<Rightarrow> string \<Rightarrow> string option" where
  "authHeader g =
     [''Authorization'' \<mapsto> ''Bearer '' @ token g, ''Content-Type'' \<mapsto> ''application/json'']"

text \<open>
  The envelope decoder, helpers.go, lines 60-79 (in \<open>getRequest\<close>) and 128-147 (in
  \<open>postRequest\<close>): the two executors hold the same statements, modelled once.
  \<open>statusIsError\<close> is the condition of line 61: the checked type assertion
  \<open>jsonResponse["status"].(string)\<close> and the comparison of the lower-cased status.
  Line 62 is the unchecked assertion \<open>jsonResponse["description"].(string)\<close>, which
  panics unless the entry is present and holds a string.
\<close>

definition statusIsError :: "'r stdlib \<Rightarrow> (string \<Rightarrow> jvalue option) \<Rightarrow> bool" where
  "statusIsError env jsonResponse =
     (case jsonResponse ''status'' of
        Some (JStr status) \<Rightarrow> ToLower env status = ''error''
      | _ \<Rightarrow> False)"

definition decodeEnvelope ::
  "'r stdlib \<Rightarrow> (string \<Rightarrow> jvalue option) \<Rightarrow> 'r \<Rightarrow> (error option \<times> 'r) outcome" where
  "decodeEnvelope env jsonResponse responseType =
     (if statusIsError env jsonResponse then
        (case jsonResponse ''description'' of
           Some (JStr description) \<Rightarrow> Returned (Some (APIError description), responseType)
         | _ \<Rightarrow> Panicked InterfaceConversion)
      else
        (case jsonResponse ''data'' of
           Some data \<Rightarrow>
             (case json_Marshal env data of
                Inl err \<Rightarrow> Returned (Some (LibraryError err), responseType)
              | Inr dataBytes \<Rightarrow>
                  (case json_Unmarshal env dataBytes responseType of
                     (Some err, r) \<Rightarrow> Returned (Some (LibraryError err), r)
                   | (None, r) \<Rightarrow> Returned (None, r)))
         | None \<Rightarrow> Returned (Some MalformedEnvelope, responseType)))"

text \<open>
  What both executors do with the response of \<open>client.Do\<close>: helpers.go, lines 49-58
  and 117-126, then the envelope decoder.
\<close>

definition handleResponse ::
  "'r stdlib \<Rightarrow> response \<Rightarrow> 'r \<Rightarrow> (error option \<times> 'r) outcome" where
  "handleResponse env resp responseType =
     (if StatusCode resp < 200 \<or> StatusCode resp \<ge> 300 then
        Returned (Some (TransportError (StatusCode resp)), responseType)
      else
        (case json_Decode env (RespBody resp) of
           Inl err \<Rightarrow> Returned (Some (LibraryError err), responseType)
         | Inr jsonResponse \<Rightarrow> decodeEnvelope env jsonResponse responseType))"

text \<open>
  \<open>getRequest(endpoint, responseType, payload...)\<close>, helpers.go, lines 14-80. The
  result is the returned \<open>error\<close> with the target as the call leaves it, or a panic,
  and the requests handed to \<open>client.Do\<close>. Line 36 reads \<open>payload[0]\<close> whatever
  the length of \<open>payload\<close>.
\<close>

definition getRequest ::
  "Greip \<Rightarrow> 'r stdlib \<Rightarrow> string \<Rightarrow> 'r \<Rightarrow> gomap list
     \<Rightarrow> (error option \<times> 'r) outcome \<times> request list" where
  "getRequest g env endpoint responseType payload =
     (let urlEndpoint = BaseURL g @ endpoint in
      case url_Parse env urlEndpoint of
        Inl err \<Rightarrow> (Returned (Some (LibraryError err), responseType), [])
      | Inr query \<Rightarrow>
          (let payload1 = (if test g \<and> length payload > 0 then setTestMode payload else payload) in
           case payload1 of
             [] \<Rightarrow> (Panicked IndexOutOfRange, [])
           | p0 # rest \<Rightarrow>
               (let req = \<lparr>Method = ''GET'', URL = urlEndpoint, Header = authHeader g,
                           RawQuery = addPayload env query p0, ReqBody = None\<rparr> in
                case client_Do env req of
                  Inl err \<Rightarrow> (Returned (Some (LibraryError err), responseType), [req])
                | Inr resp \<Rightarrow> (handleResponse env resp responseType, [req]))))"

text \<open>
  \<open>postRequest(endpoint, responseType, payload)\<close>, helpers.go, lines 83-148. Line 97
  writes into \<open>payload\<close>, which panics on a nil map.
\<close>

definition postRequest ::
  "Greip \<Rightarrow> 'r stdlib \<Rightarrow> string \<Rightarrow> 'r \<Rightarrow> gomap
     \<Rightarrow> (error option \<times> 'r) outcome \<times> request list" where
  "postRequest g env endpoint responseType payload =
     (let urlEndpoint = BaseURL g @ endpoint in
      case url_Parse env urlEndpoint of
        Inl err \<Rightarrow> (Returned (Some (LibraryError err), responseType), [])
      | Inr query \<Rightarrow>
          (case (if test g then
                   (case payload of
                      None \<Rightarrow> Inl NilMapAssignment
                    | Some m \<Rightarrow> Inr (Some (m(''mode'' \<mapsto> JStr ''test''))))
                 else Inr payload) of
             Inl p \<Rightarrow> (Panicked p, [])
           | Inr payload1 \<Rightarrow>
               (case json_Marshal env (mapValue payload1) of
                  Inl err \<Rightarrow> (Returned (Some (LibraryError err), responseType), [])
                | Inr payloadBytes \<Rightarrow>
                    (let req = \<lparr>Method = ''POST'', URL = urlEndpoint, Header = authHeader g,
                                RawQuery = query, ReqBody = Some payloadBytes\<rparr> in
                     case client_Do env req of
                       Inl err \<Rightarrow> (Returned (Some (LibraryError err), responseType), [req])
                     | Inr resp \<Rightarrow> (handleResponse env resp responseType, [req])))))"

section \<open>Endpoint methods (greip.go)\<close>

definition availableGeoIPParams :: "string list" where
  "availableGeoIPParams = [''location'', ''security'', ''timezone'', ''currency'', ''device'']"

definition availableCountryParams :: "string list" where
  "availableCountryParams = [''language'', ''flag'', ''currency'', ''timezone'']"

definition baseUrl :: string where
  "baseUrl = ''https://greipapi.com/''"

text \<open>\<open>NewGreip(apiToken, test...)\<close>, greip.go, lines 14-26.\<close>

definition NewGreip :: "string \<Rightarrow> bool list \<Rightarrow> Greip" where
  "NewGreip apiToken testArg =
     (let testValue = (if length testArg > 0 then hd testArg else False) in
      \<lparr>token = apiToken, BaseURL = baseUrl, test = testValue\<rparr>)"

text \<open>
  The end of every endpoint method:
  \<^verbatim>\<open>if err != nil { return nil, err }; return &response, err\<close>.
  The pair is the Go result \<open>(*Response, error)\<close>, \<open>None\<close> being \<open>nil\<close>.
\<close>

definition returnResponse ::
  "(error option \<times> 'r) outcome \<times> request list
     \<Rightarrow> ('r option \<times> error option) outcome \<times> request list" where
  "returnResponse x =
     (case x of
        (Panicked p, sent) \<Rightarrow> (Panicked p, sent)
      | (Returned (Some err, response), sent) \<Rightarrow> (Returned (None, Some err), sent)
      | (Returned (None, response), sent) \<Rightarrow> (Returned (Some response, None), sent))"

text \<open>
  In every method below \<open>response\<close> is the zero value of the method's response type
  (\<open>var response ResponseLookup\<close>, ...), the variadic \<open>lang\<close> is the list of the
  arguments given, and a slice or map argument is \<open>None\<close> when the caller passes
  \<open>nil\<close>. The \<open>url.Values\<close> each method fills after its checks is never used and is
  left out, and so is the second \<open>params == nil\<close> test, which the first one makes
  dead. \<open>Lookup\<close>: greip.go, lines 73-125.
\<close>

definition Lookup ::
  "Greip \<Rightarrow> 'r stdlib \<Rightarrow> 'r \<Rightarrow> string \<Rightarrow> string list option \<Rightarrow> string list
     \<Rightarrow> ('r option \<times> error option) outcome \<times> request list" where
  "Lookup g env response ip params lang =
     (let params1 = elems params;
          langValue = (if length lang > 0 then hd lang else ''EN'');
          payload = [''ip'' \<mapsto> JStr ip,
                     ''params'' \<mapsto> JStr (Join params1 '',''),
                     ''lang'' \<mapsto> JStr (ToUpper env langValue)] in
      if ip = [] then (Returned (None, Some (MissingParameter ''ip'')), [])
      else
        (case validateParams params1 availableGeoIPParams of
           Some err \<Rightarrow> (Returned (None, Some err), [])
         | None \<Rightarrow>
             (case validateLang env langValue of
                Some err \<Rightarrow> (Returned (None, Some err), [])
              | None \<Rightarrow> returnResponse (getRequest g env ''IPLookup'' response [Some payload]))))"

text \<open>\<open>Threats\<close>: greip.go, lines 159-181.\<close>

definition Threats ::
  "Greip \<Rightarrow> 'r stdlib \<Rightarrow> 'r \<Rightarrow> string
     \<Rightarrow> ('r option \<times> error option) outcome \<times> request list" where
  "Threats g env response ip =
     (let payload = [''ip'' \<mapsto> JStr ip] in
      if ip = [] then (Returned (None, Some (MissingParameter ''ip'')), [])
      else returnResponse (getRequest g env ''threats'' response [Some payload]))"

text \<open>\<open>BulkLookup\<close>: greip.go, lines 227-279. The required list is checked against \<open>nil\<close>.\<close>

definition BulkLookup ::
  "Greip \<Rightarrow> 'r stdlib \<Rightarrow> 'r \<Rightarrow> string list option \<Rightarrow> string list option \<Rightarrow> string list
     \<Rightarrow> ('r option \<times> error option) outcome \<times> request list" where
  "BulkLookup g env response ips params lang =
     (let params1 = elems params;
          langValue = (if length lang > 0 then hd lang else ''EN'');
          payload = [''ips'' \<mapsto> JStr (Join (elems ips) '',''),
                     ''params'' \<mapsto> JStr (Join params1 '',''),
                     ''lang'' \<mapsto> JStr (ToUpper env langValue)] in
      if ips = None then (Returned (None, Some (MissingParameter ''ips'')), [])
      else
        (case validateParams params1 availableGeoIPParams of
           Some err \<Rightarrow> (Returned (None, Some err), [])
         | None \<Rightarrow>
             (case validateLang env langValue of
                Some err \<Rightarrow> (Returned (None, Some err), [])
              | None \<Rightarrow> returnResponse (getRequest g env ''BulkLookup'' response [Some payload]))))"

text \<open>\<open>Country\<close>: greip.go, lines 325-377.\<close>

definition Country ::
  "Greip \<Rightarrow> 'r stdlib \<Rightarrow> 'r \<Rightarrow> string \<Rightarrow> string list option \<Rightarrow> string list
     \<Rightarrow> ('r option \<times> error option) outcome \<times> request list" where
  "Country g env response countryCode params lang =
     (let params1 = elems params;
          langValue = (if length lang > 0 then hd lang else ''EN'');
          payload = [''CountryCode'' \<mapsto> JStr countryCode,
                     ''params'' \<mapsto> JStr (Join params1 '',''),
                     ''lang'' \<mapsto> JStr (ToUpper env langValue)] in
      if countryCode = [] then (Returned (None, Some (MissingParameter ''countryCode'')), [])
      else
        (case validateParams params1 availableCountryParams of
           Some err \<Rightarrow> (Returned (None, Some err), [])
         | None \<Rightarrow>
             (case validateLang env langValue of
                Some err \<Rightarrow> (Returned (None, Some err), [])
              | None \<Rightarrow> returnResponse (getRequest g env ''Country'' response [Some payload]))))"

text \<open>
  \<open>Profanity\<close> (lines 412-434), \<open>AsnLookup\<close> (lines 467-489), \<open>Email\<close>
  (lines 522-544).
\<close>

definition Profanity ::
  "Greip \<Rightarrow> 'r stdlib \<Rightarrow> 'r \<Rightarrow> string
     \<Rightarrow> ('r option \<times> error option) outcome \<times> request list" where
  "Profanity g env response text =
     (let payload = [''text'' \<mapsto> JStr text] in
      if text = [] then (Returned (None, Some (MissingParameter ''text'')), [])
      else returnResponse (getRequest g env ''badWords'' response [Some payload]))"

definition AsnLookup ::
  "Greip \<Rightarrow> 'r stdlib \<Rightarrow> 'r \<Rightarrow> string
     \<Rightarrow> ('r option \<times> error option) outcome \<times> request list" where
  "AsnLookup g env response asn =
     (let payload = [''asn'' \<mapsto> JStr asn] in
      if asn = [] then (Returned (None, Some (MissingParameter ''asn'')), [])
      else returnResponse (getRequest g env ''ASNLookup'' response [Some payload]))"

definition Email ::
  "Greip \<Rightarrow> 'r stdlib \<Rightarrow> 'r \<Rightarrow> string
     \<Rightarrow> ('r option \<times> error option) outcome \<times> request list" where
  "Email g env response email =
     (let payload = [''email'' \<mapsto> JStr email] in
      if email = [] then (Returned (None, Some (MissingParameter ''email'')), [])
      else returnResponse (getRequest g env ''validateEmail'' response [Some payload]))"

text \<open>\<open>Phone\<close>: greip.go, lines 578-607.\<close>

definition Phone ::
  "Greip \<Rightarrow> 'r stdlib \<Rightarrow> 'r \<Rightarrow> string \<Rightarrow> string
     \<Rightarrow> ('r option \<times> error option) outcome \<times> request list" where
  "Phone g env response phone countryCode =
     (let payload = [''phone'' \<mapsto> JStr phone, ''countryCode'' \<mapsto> JStr countryCode] in
      if phone = [] then (Returned (None, Some (MissingParameter ''phone'')), [])
      else if countryCode = [] then
        (Returned (None, Some (MissingParameter ''countryCode'')), [])
      else returnResponse (getRequest g env ''validatePhone'' response [Some payload]))"

text \<open>\<open>IBAN\<close>: greip.go, lines 640-662.\<close>

definition IBAN ::
  "Greip \<Rightarrow> 'r stdlib \<Rightarrow> 'r \<Rightarrow> string
     \<Rightarrow> ('r option \<times> error option) outcome \<times> request list" where
  "IBAN g env response iban =
     (let payload = [''iban'' \<mapsto> JStr iban] in
      if iban = [] then (Returned (None, Some (MissingParameter ''iban'')), [])
      else returnResponse (getRequest g env ''validateIBAN'' response [Some payload]))"

text \<open>\<open>Payment\<close>: greip.go, lines 704-723. The required map is checked against \<open>nil\<close>.\<close>

definition Payment ::
  "Greip \<Rightarrow> 'r stdlib \<Rightarrow> 'r \<Rightarrow> gomap
     \<Rightarrow> ('r option \<times> error option) outcome \<times> request list" where
  "Payment g env response data =
     (case data of
        None \<Rightarrow> (Returned (None, Some (MissingParameter ''data'')), [])
      | Some d \<Rightarrow>
          (let payload = [''data'' \<mapsto> JObj d] in
           returnResponse (postRequest g env ''paymentFraud'' response (Some payload))))"

section \<open>Example inputs\<close>

text \<open>
  Concrete inputs for the examples below. \<open>exampleLib resp envelope\<close> is a library
  in which \<open>url.Parse\<close> rejects a URL that starts with a colon (Go: "missing
  protocol scheme") and finds no query in any other, the server answers \<open>resp\<close> to
  every request, the body decodes to \<open>envelope\<close>, and the decoded target is the text
  of the data field. Of the Unicode tables it holds the one entry used below: the
  string \<open>longEs\<close>, the letter \<open>e\<close> followed by the rune U+017F (the bytes C5 BF
  in UTF-8), is upper-cased to \<open>ES\<close>, as Go does.
\<close>

definition longEs :: string where
  "longEs = [CHR ''e'', CHR 0xC5, CHR 0xBF]"

definition exampleLib :: "response \<Rightarrow> (string \<Rightarrow> jvalue option) \<Rightarrow> string stdlib" where
  "exampleLib resp envelope =
     \<lparr>url_Parse = (\<lambda>u. if take 1 u = '':'' then Inl ''missing protocol scheme''
                         else Inr Map.empty),
      client_Do = (\<lambda>req. Inr resp),
      sprint_other = (\<lambda>v. ''?''),
      json_Marshal = (\<lambda>v. Inr ''json''),
      json_Decode = (\<lambda>b. Inr envelope),
      json_Unmarshal = (\<lambda>b t. (None, b)),
      unicode_ToUpper = (\<lambda>s. if s = longEs then ''ES'' else s),
      unicode_ToLower = (\<lambda>s. s)\<rparr>"

definition liveClient :: Greip where
  "liveClient = NewGreip ''secret'' []"

definition testClient :: Greip where
  "testClient = NewGreip ''secret'' [True]"

definition badUrlClient :: Greip where
  "badUrlClient = (NewGreip ''secret'' [])\<lparr>BaseURL := '':''\<rparr>"

definition ok200 :: response where
  "ok200 = \<lparr>StatusCode = 200, RespBody = ''body''\<rparr>"

definition fail500 :: response where
  "fail500 = \<lparr>StatusCode = 500, RespBody = ''body''\<rparr>"

definition errorNoDescription :: "string \<Rightarrow> jvalue option" where
  "errorNoDescription = [''status'' \<mapsto> JStr ''error'']"

definition errorBadToken :: "string \<Rightarrow> jvalue option" where
  "errorBadToken = [''status'' \<mapsto> JStr ''Error'', ''description'' \<mapsto> JStr ''bad token'']"

definition successNoData :: "string \<Rightarrow> jvalue option" where
  "successNoData = [''status'' \<mapsto> JStr ''success'']"

definition emptyData :: gomap where
  "emptyData = Some Map.empty"

definition successData :: "string \<Rightarrow> jvalue option" where
  "successData = [''status'' \<mapsto> JStr ''success'', ''data'' \<mapsto> JObj [''ip'' \<mapsto> JStr ''1.1.1.1'']]"

text \<open>
  Whether a request carries the test-mode marker: for a GET, \<open>test\<close> is the value
  added last under the query key \<open>mode\<close>.
\<close>

definition queryEndsWith :: "request \<Rightarrow> string \<Rightarrow> string \<Rightarrow> bool" where
  "queryEndsWith req key v =
     (case RawQuery req key of None \<Rightarrow> False | Some vs \<Rightarrow> vs \<noteq> [] \<and> last vs = v)"

text \<open>The values that each request of a list carries under a query key.\<close>

definition queryValues :: "string \<Rightarrow> request list \<Rightarrow> string list option list" where
  "queryValues key sent = map (\<lambda>req. RawQuery req key) sent"

section \<open>Auxiliary facts\<close>

lemmas case_defs =
  ToUpper_def ToLower_def isASCII_def upperByte_def lowerByte_def lowerLetters_def
  upperLetters_def

lemmas example_defs =
  exampleLib_def liveClient_def testClient_def badUrlClient_def NewGreip_def baseUrl_def
  ok200_def fail500_def errorNoDescription_def errorBadToken_def successNoData_def
  successData_def emptyData_def longEs_def

lemma contains_iff: "contains slice item \<longleftrightarrow> item \<in> set slice"
  by (induction slice) auto

lemma validateParams_None_iff:
  "validateParams params allowed = None \<longleftrightarrow> set params \<subseteq> set allowed"
  by (induction params) (simp_all add: contains_iff)

lemma validateParams_first:
  "validateParams params allowed \<noteq> None \<Longrightarrow>
     \<exists>pre p post. params = pre @ p # post \<and> set pre \<subseteq> set allowed \<and> p \<notin> set allowed
        \<and> validateParams params allowed = Some (InvalidParameter p)"
proof (induction params)
  case Nil
  then show ?case by simp
next
  case (Cons a params)
  show ?case
  proof (cases "a \<in> set allowed")
    case False
    then have "a # params = [] @ a # params \<and> set [] \<subseteq> set allowed \<and> a \<notin> set allowed
        \<and> validateParams (a # params) allowed = Some (InvalidParameter a)"
      by (simp add: contains_iff)
    then show ?thesis by blast
  next
    case True
    with Cons.prems have "validateParams params allowed \<noteq> None"
      by (simp add: contains_iff)
    from Cons.IH [OF this] obtain pre p post where
      h: "params = pre @ p # post" "set pre \<subseteq> set allowed" "p \<notin> set allowed"
         "validateParams params allowed = Some (InvalidParameter p)"
      by blast
    with True have "a # params = (a # pre) @ p # post \<and> set (a # pre) \<subseteq> set allowed \<and> p \<notin> set allowed
        \<and> validateParams (a # params) allowed = Some (InvalidParameter p)"
      by (simp add: contains_iff)
    then show ?thesis by blast
  qed
qed

lemma upperByte_lowerByte: "upperByte (lowerByte c) = upperByte c"
  by (simp add: case_defs)

lemma upperByte_idem: "upperByte (upperByte c) = upperByte c"
  by (simp add: case_defs)

lemma ascii_lowerByte: "(of_char (lowerByte c) :: nat) < 128 \<longleftrightarrow> (of_char c :: nat) < 128"
  by (simp add: lowerByte_def lowerLetters_def upperLetters_def)

lemma ascii_upperByte: "(of_char (upperByte c) :: nat) < 128 \<longleftrightarrow> (of_char c :: nat) < 128"
  by (simp add: upperByte_def lowerLetters_def upperLetters_def)

lemma isASCII_map_lowerByte: "isASCII (map lowerByte s) = isASCII s"
  by (induction s) (simp_all add: isASCII_def ascii_lowerByte)

lemma isASCII_map_upperByte: "isASCII (map upperByte s) = isASCII s"
  by (induction s) (simp_all add: isASCII_def ascii_upperByte)

lemma ToUpper_ToLower: "isASCII s \<Longrightarrow> ToUpper env (ToLower env s) = ToUpper env s"
  by (simp add: ToUpper_def ToLower_def isASCII_map_lowerByte upperByte_lowerByte)

lemma ToUpper_idem: "isASCII s \<Longrightarrow> ToUpper env (ToUpper env s) = ToUpper env s"
  by (simp add: ToUpper_def isASCII_map_upperByte upperByte_idem)

lemma ToUpper_EN: "ToUpper env ''EN'' = ''EN''"
  by (simp add: case_defs)

lemma validateLang_EN: "validateLang env ''EN'' = None"
  by (simp add: validateLang_def allowedLangs_def ToUpper_EN)

lemma validateParams_error:
  "validateParams params allowed = Some e \<Longrightarrow> \<exists>p. e = InvalidParameter p"
  by (induction params) (auto split: if_splits)

lemma statusIsError_iff:
  "statusIsError env m \<longleftrightarrow>
     (\<exists>s. m ''status'' = Some (JStr s) \<and> ToLower env s = ''error'')"
  by (auto simp add: statusIsError_def split: option.splits jvalue.splits)

lemma getRequest_sent:
  assumes "getRequest g env endpoint target payload = (out, sent)" and "req \<in> set sent"
  shows "sent = [req]
     \<and> (case client_Do env req of
           Inl err \<Rightarrow> out = Returned (Some (LibraryError err), target)
         | Inr resp \<Rightarrow> out = handleResponse env resp target)"
  using assms
  by (auto simp add: getRequest_def Let_def split: sum.splits list.splits if_splits)

lemma postRequest_sent:
  assumes "postRequest g env endpoint target payload = (out, sent)" and "req \<in> set sent"
  shows "sent = [req]
     \<and> (case client_Do env req of
           Inl err \<Rightarrow> out = Returned (Some (LibraryError err), target)
         | Inr resp \<Rightarrow> out = handleResponse env resp target)"
  using assms
  by (auto simp add: postRequest_def Let_def split: sum.splits list.splits if_splits option.splits)

lemma handleResponse_non_2xx:
  "StatusCode resp < 200 \<or> 300 \<le> StatusCode resp \<Longrightarrow>
     handleResponse env resp target = Returned (Some (TransportError (StatusCode resp)), target)"
  by (auto simp add: handleResponse_def)

lemma decodeEnvelope_APIError:
  "statusIsError env m \<Longrightarrow> m ''description'' = Some (JStr d) \<Longrightarrow>
     decodeEnvelope env m target = Returned (Some (APIError d), target)"
  by (simp add: decodeEnvelope_def)

lemma decodeEnvelope_panics:
  "statusIsError env m \<Longrightarrow> \<forall>d. m ''description'' \<noteq> Some (JStr d) \<Longrightarrow>
     decodeEnvelope env m target = Panicked InterfaceConversion"
  by (auto simp add: decodeEnvelope_def split: option.splits jvalue.splits)

lemma decodeEnvelope_missing_data:
  "\<not> statusIsError env m \<Longrightarrow> m ''data'' = None \<Longrightarrow>
     decodeEnvelope env m target = Returned (Some MalformedEnvelope, target)"
  by (simp add: decodeEnvelope_def)

lemma handleResponse_2xx:
  "200 \<le> StatusCode resp \<Longrightarrow> StatusCode resp < 300 \<Longrightarrow>
   json_Decode env (RespBody resp) = Inr m \<Longrightarrow>
     handleResponse env resp target = decodeEnvelope env m target"
  by (simp add: handleResponse_def)

lemma snd_returnResponse: "snd (returnResponse x) = snd x"
  by (auto simp add: returnResponse_def split: prod.splits outcome.splits option.splits)

lemma fst_returnResponse_Panicked:
  "fst (returnResponse x) = Panicked p \<longleftrightarrow> fst x = Panicked p"
  by (auto simp add: returnResponse_def split: prod.splits outcome.splits option.splits)

lemma getRequest_mode:
  "test g \<Longrightarrow> req \<in> set (snd (getRequest g env endpoint target payloads)) \<Longrightarrow>
     queryEndsWith req ''mode'' ''test''"
  by (auto simp add: getRequest_def Let_def setTestMode_def addPayload_def entries_def
      queryEndsWith_def sprintf_v_def split: sum.splits list.splits if_splits option.splits)

lemma getRequest_mode_exact:
  "test g \<Longrightarrow> req \<in> set (snd (getRequest g env endpoint target payloads)) \<Longrightarrow>
   url_Parse env (BaseURL g @ endpoint) = Inr q \<Longrightarrow>
     RawQuery req ''mode'' = Some ((case q ''mode'' of None \<Rightarrow> [] | Some vs \<Rightarrow> vs) @ [''test''])"
  by (auto simp add: getRequest_def Let_def setTestMode_def addPayload_def entries_def
      sprintf_v_def split: sum.splits list.splits if_splits option.splits)

lemma postRequest_mode:
  "test g \<Longrightarrow> req \<in> set (snd (postRequest g env endpoint target (Some m))) \<Longrightarrow>
     \<exists>bytes. json_Marshal env (JObj (m(''mode'' \<mapsto> JStr ''test''))) = Inr bytes
        \<and> ReqBody req = Some bytes"
  by (auto simp add: postRequest_def Let_def mapValue_def split: sum.splits)

lemma postRequest_nil:
  "test g \<Longrightarrow> snd (postRequest g env endpoint target None) = []"
  by (simp add: postRequest_def Let_def split: sum.splits)

lemma Lookup_sent:
  "req \<in> set (snd (Lookup g env r ip params lang)) \<Longrightarrow>
     \<exists>p. req \<in> set (snd (getRequest g env ''IPLookup'' r [Some p]))"
  by (auto simp add: Lookup_def Let_def snd_returnResponse split: option.splits if_splits)

lemma BulkLookup_sent:
  "req \<in> set (snd (BulkLookup g env r ips params lang)) \<Longrightarrow>
     \<exists>p. req \<in> set (snd (getRequest g env ''BulkLookup'' r [Some p]))"
  by (auto simp add: BulkLookup_def Let_def snd_returnResponse split: option.splits if_splits)

lemma Country_sent:
  "req \<in> set (snd (Country g env r countryCode params lang)) \<Longrightarrow>
     \<exists>p. req \<in> set (snd (getRequest g env ''Country'' r [Some p]))"
  by (auto simp add: Country_def Let_def snd_returnResponse split: option.splits if_splits)

lemma simple_sent:
  "req \<in> set (snd (Threats g env r ip)) \<Longrightarrow>
     \<exists>p. req \<in> set (snd (getRequest g env ''threats'' r [Some p]))"
  "req \<in> set (snd (Profanity g env r txt)) \<Longrightarrow>
     \<exists>p. req \<in> set (snd (getRequest g env ''badWords'' r [Some p]))"
  "req \<in> set (snd (AsnLookup g env r asn)) \<Longrightarrow>
     \<exists>p. req \<in> set (snd (getRequest g env ''ASNLookup'' r [Some p]))"
  "req \<in> set (snd (Email g env r email)) \<Longrightarrow>
     \<exists>p. req \<in> set (snd (getRequest g env ''validateEmail'' r [Some p]))"
  "req \<in> set (snd (Phone g env r phone cc)) \<Longrightarrow>
     \<exists>p. req \<in> set (snd (getRequest g env ''validatePhone'' r [Some p]))"
  "req \<in> set (snd (IBAN g env r iban)) \<Longrightarrow>
     \<exists>p. req \<in> set (snd (getRequest g env ''validateIBAN'' r [Some p]))"
  by (auto simp add: Threats_def Profanity_def AsnLookup_def Email_def Phone_def IBAN_def
      Let_def snd_returnResponse split: if_splits)

lemma Payment_sent:
  "req \<in> set (snd (Payment g env r data)) \<Longrightarrow>
     \<exists>d. data = Some d
       \<and> req \<in> set (snd (postRequest g env ''paymentFraud'' r (Some [''data'' \<mapsto> JObj d])))"
  by (auto simp add: Payment_def Let_def snd_returnResponse split: option.splits)

lemma getRequest_lang:
  "p ''lang'' = Some (JStr l) \<Longrightarrow>
   req \<in> set (snd (getRequest g env endpoint target [Some p])) \<Longrightarrow>
     queryEndsWith req ''lang'' l"
  by (auto simp add: getRequest_def Let_def setTestMode_def addPayload_def entries_def
      queryEndsWith_def sprintf_v_def split: sum.splits if_splits option.splits)

lemma Lookup_default_lang:
  "req \<in> set (snd (Lookup g env r ip params [])) \<Longrightarrow> queryEndsWith req ''lang'' ''EN''"
  by (auto simp add: Lookup_def Let_def snd_returnResponse case_defs
      split: option.splits if_splits elim!: getRequest_lang [rotated])

lemma BulkLookup_default_lang:
  "req \<in> set (snd (BulkLookup g env r ips params [])) \<Longrightarrow> queryEndsWith req ''lang'' ''EN''"
  by (auto simp add: BulkLookup_def Let_def snd_returnResponse case_defs
      split: option.splits if_splits elim!: getRequest_lang [rotated])

lemma Country_default_lang:
  "req \<in> set (snd (Country g env r cc params [])) \<Longrightarrow> queryEndsWith req ''lang'' ''EN''"
  by (auto simp add: Country_def Let_def snd_returnResponse case_defs
      split: option.splits if_splits elim!: getRequest_lang [rotated])

lemma decodeEnvelope_no_index_panic:
  "decodeEnvelope env m target \<noteq> Panicked IndexOutOfRange"
  by (simp add: decodeEnvelope_def split: option.splits jvalue.splits sum.splits prod.splits)

lemma handleResponse_no_index_panic:
  "handleResponse env resp target \<noteq> Panicked IndexOutOfRange"
  by (simp add: handleResponse_def decodeEnvelope_no_index_panic split: sum.splits)

lemma getRequest_one_payload:
  "fst (getRequest g env endpoint target [p]) \<noteq> Panicked IndexOutOfRange"
  by (simp add: getRequest_def Let_def setTestMode_def handleResponse_no_index_panic
      split: sum.splits)

lemma returnResponse_one_payload:
  "fst (returnResponse (getRequest g env endpoint target [p])) \<noteq> Panicked IndexOutOfRange"
  by (simp add: fst_returnResponse_Panicked getRequest_one_payload)

lemma returnResponse_shape:
  "fst (returnResponse x) = Returned (res, err) \<Longrightarrow>
     (res = None \<and> err \<noteq> None \<and> (\<exists>e r. fst x = Returned (Some e, r) \<and> err = Some e))
     \<or> (err = None \<and> (\<exists>r. res = Some r \<and> fst x = Returned (None, r)))"
  by (auto simp add: returnResponse_def split: prod.splits outcome.splits option.splits)

lemma decodeEnvelope_success:
  "decodeEnvelope env m target = Returned (None, r) \<Longrightarrow>
     \<not> statusIsError env m
     \<and> (\<exists>data bytes. m ''data'' = Some data \<and> json_Marshal env data = Inr bytes
           \<and> json_Unmarshal env bytes target = (None, r))"
  by (auto simp add: decodeEnvelope_def split: option.splits jvalue.splits sum.splits
      prod.splits if_splits)

lemma handleResponse_success:
  "handleResponse env resp target = Returned (None, r) \<Longrightarrow>
     200 \<le> StatusCode resp \<and> StatusCode resp < 300
     \<and> (\<exists>m data bytes. json_Decode env (RespBody resp) = Inr m \<and> \<not> statusIsError env m
           \<and> m ''data'' = Some data \<and> json_Marshal env data = Inr bytes
           \<and> json_Unmarshal env bytes target = (None, r))"
  by (auto simp add: handleResponse_def split: sum.splits if_splits dest: decodeEnvelope_success)

lemma getRequest_success:
  "fst (getRequest g env endpoint target payloads) = Returned (None, r) \<Longrightarrow>
     \<exists>req resp. snd (getRequest g env endpoint target payloads) = [req]
        \<and> client_Do env req = Inr resp
        \<and> handleResponse env resp target = Returned (None, r)"
  by (auto simp add: getRequest_def Let_def split: sum.splits list.splits if_splits)

lemma postRequest_success:
  "fst (postRequest g env endpoint target payload) = Returned (None, r) \<Longrightarrow>
     \<exists>req resp. snd (postRequest g env endpoint target payload) = [req]
        \<and> client_Do env req = Inr resp
        \<and> handleResponse env resp target = Returned (None, r)"
  by (auto simp add: postRequest_def Let_def split: sum.splits option.splits if_splits)

lemma returnResponse_xor:
  "fst (returnResponse x) = Returned (res, err) \<Longrightarrow> (res = None) \<noteq> (err = None)"
  by (auto simp add: returnResponse_def split: prod.splits outcome.splits option.splits)

lemma endpoints_result_xor_error:
  "fst (Lookup g env target ip params lang) = Returned (res, err) \<Longrightarrow> (res = None) \<noteq> (err = None)"
  "fst (Threats g env target ip) = Returned (res, err) \<Longrightarrow> (res = None) \<noteq> (err = None)"
  "fst (BulkLookup g env target ips params lang) = Returned (res, err) \<Longrightarrow>
     (res = None) \<noteq> (err = None)"
  "fst (Country g env target countryCode params lang) = Returned (res, err) \<Longrightarrow>
     (res = None) \<noteq> (err = None)"
  "fst (Profanity g env target txt) = Returned (res, err) \<Longrightarrow> (res = None) \<noteq> (err = None)"
  "fst (AsnLookup g env target asn) = Returned (res, err) \<Longrightarrow> (res = None) \<noteq> (err = None)"
  "fst (Email g env target email) = Returned (res, err) \<Longrightarrow> (res = None) \<noteq> (err = None)"
  "fst (Phone g env target phone countryCode) = Returned (res, err) \<Longrightarrow>
     (res = None) \<noteq> (err = None)"
  "fst (IBAN g env target iban) = Returned (res, err) \<Longrightarrow> (res = None) \<noteq> (err = None)"
  "fst (Payment g env target data) = Returned (res, err) \<Longrightarrow> (res = None) \<noteq> (err = None)"
  by (auto simp add: Lookup_def Threats_def BulkLookup_def Country_def Profanity_def
      AsnLookup_def Email_def Phone_def IBAN_def Payment_def Let_def
      split: option.splits if_splits dest: returnResponse_xor)
     metis+

lemma getRequest_lang_values:
  "p ''lang'' = Some (JStr l) \<Longrightarrow> url_Parse env (BaseURL g @ endpoint) = Inr q \<Longrightarrow>
     queryValues ''lang'' (snd (getRequest g env endpoint target [Some p]))
       = [Some (elems (q ''lang'') @ [l])]"
  by (auto simp add: getRequest_def Let_def setTestMode_def addPayload_def entries_def
      queryValues_def elems_def sprintf_v_def split: sum.splits option.splits)

lemma Lookup_valid:
  "ip \<noteq> [] \<Longrightarrow> validateParams (elems params) availableGeoIPParams = None \<Longrightarrow>
   validateLang env (if lang = [] then ''EN'' else hd lang) = None \<Longrightarrow>
     Lookup g env target ip params lang =
       returnResponse (getRequest g env ''IPLookup'' target
         [Some [''ip'' \<mapsto> JStr ip, ''params'' \<mapsto> JStr (Join (elems params) '',''),
                ''lang'' \<mapsto> JStr (ToUpper env (if lang = [] then ''EN'' else hd lang))]])"
  by (cases lang) (simp_all add: Lookup_def Let_def)

lemma BulkLookup_valid:
  "validateParams (elems params) availableGeoIPParams = None \<Longrightarrow>
   validateLang env (if lang = [] then ''EN'' else hd lang) = None \<Longrightarrow>
     BulkLookup g env target (Some xs) params lang =
       returnResponse (getRequest g env ''BulkLookup'' target
         [Some [''ips'' \<mapsto> JStr (Join xs '',''), ''params'' \<mapsto> JStr (Join (elems params) '',''),
                ''lang'' \<mapsto> JStr (ToUpper env (if lang = [] then ''EN'' else hd lang))]])"
  by (cases lang) (simp_all add: BulkLookup_def Let_def elems_def)

lemma Country_valid:
  "countryCode \<noteq> [] \<Longrightarrow> validateParams (elems params) availableCountryParams = None \<Longrightarrow>
   validateLang env (if lang = [] then ''EN'' else hd lang) = None \<Longrightarrow>
     Country g env target countryCode params lang =
       returnResponse (getRequest g env ''Country'' target
         [Some [''CountryCode'' \<mapsto> JStr countryCode,
                ''params'' \<mapsto> JStr (Join (elems params) '',''),
                ''lang'' \<mapsto> JStr (ToUpper env (if lang = [] then ''EN'' else hd lang))]])"
  by (cases lang) (simp_all add: Country_def Let_def)

lemma decodeEnvelope_not_missing:
  "decodeEnvelope env m target \<noteq> Returned (Some (MissingParameter p), r)"
  by (simp add: decodeEnvelope_def split: option.splits jvalue.splits sum.splits prod.splits)

lemma handleResponse_not_missing:
  "handleResponse env resp target \<noteq> Returned (Some (MissingParameter p), r)"
  by (simp add: handleResponse_def decodeEnvelope_not_missing split: sum.splits)

lemma getRequest_not_missing:
  "fst (getRequest g env endpoint target payloads) \<noteq> Returned (Some (MissingParameter p), r)"
  by (simp add: getRequest_def Let_def handleResponse_not_missing
      split: sum.splits list.splits)

lemma postRequest_not_missing:
  "fst (postRequest g env endpoint target payload) \<noteq> Returned (Some (MissingParameter p), r)"
  by (simp add: postRequest_def Let_def handleResponse_not_missing
      split: sum.splits option.splits)

lemma returnResponse_error:
  "fst (returnResponse x) = Returned (None, Some e) \<Longrightarrow> \<exists>r. fst x = Returned (Some e, r)"
  by (auto simp add: returnResponse_def split: prod.splits outcome.splits option.splits)

lemma BulkLookup_not_missing:
  "fst (BulkLookup g env target (Some xs) params lang)
     \<noteq> Returned (None, Some (MissingParameter p))"
proof (cases "validateParams (elems params) availableGeoIPParams")
  case (Some e)
  with validateParams_error [OF Some] show ?thesis
    by (auto simp add: BulkLookup_def Let_def)
next
  case None
  show ?thesis
  proof (cases "validateLang env (if lang = [] then ''EN'' else hd lang)")
    case (Some e)
    then have "e = UnsupportedLanguage (if lang = [] then ''EN'' else hd lang)"
      by (simp add: validateLang_def split: if_splits)
    with None Some show ?thesis
      by (cases lang) (simp_all add: BulkLookup_def Let_def)
  next
    case None': None
    show ?thesis
    proof
      assume "fst (BulkLookup g env target (Some xs) params lang)
          = Returned (None, Some (MissingParameter p))"
      then have "\<exists>r. fst (getRequest g env ''BulkLookup'' target
          [Some [''ips'' \<mapsto> JStr (Join xs '',''),
                 ''params'' \<mapsto> JStr (Join (elems params) '',''),
                 ''lang'' \<mapsto> JStr (ToUpper env (if lang = [] then ''EN'' else hd lang))]])
            = Returned (Some (MissingParameter p), r)"
        by (simp only: BulkLookup_valid [OF None None'] returnResponse_error)
      then show False by (simp add: getRequest_not_missing)
    qed
  qed
qed

lemma Payment_not_missing:
  "fst (Payment g env target (Some d)) \<noteq> Returned (None, Some (MissingParameter p))"
proof
  assume "fst (Payment g env target (Some d)) = Returned (None, Some (MissingParameter p))"
  then have "\<exists>r. fst (postRequest g env ''paymentFraud'' target (Some [''data'' \<mapsto> JObj d]))
      = Returned (Some (MissingParameter p), r)"
    by (simp add: Payment_def returnResponse_error)
  then show False by (simp add: postRequest_not_missing)
qed

section \<open>Validators\<close>

text \<open>
  Claim C5. \<open>validateParams\<close> returns no error exactly when the requested list is
  empty or each of its elements occurs in the allowed list (string equality, hence
  case-sensitive and exact). Otherwise the requested list splits into a prefix of
  allowed values, a value \<open>p\<close> that is not allowed, and a rest, and the error is
  \<open>InvalidParameter p\<close>: it names the first value that is not allowed.
\<close>

theorem validateParams_spec:
  "(validateParams requested allowed = None \<longleftrightarrow>
      requested = [] \<or> (\<forall>p \<in> set requested. p \<in> set allowed))
   \<and> (validateParams requested allowed \<noteq> None \<longrightarrow>
        (\<exists>pre p post. requested = pre @ p # post \<and> (\<forall>q \<in> set pre. q \<in> set allowed)
            \<and> p \<notin> set allowed
            \<and> validateParams requested allowed = Some (InvalidParameter p)))"
proof (intro conjI impI)
  show "validateParams requested allowed = None \<longleftrightarrow>
      requested = [] \<or> (\<forall>p \<in> set requested. p \<in> set allowed)"
    by (auto simp add: validateParams_None_iff)
next
  assume "validateParams requested allowed \<noteq> None"
  from validateParams_first [OF this] show
    "\<exists>pre p post. requested = pre @ p # post \<and> (\<forall>q \<in> set pre. q \<in> set allowed)
            \<and> p \<notin> set allowed
            \<and> validateParams requested allowed = Some (InvalidParameter p)"
    by (auto simp add: subset_iff)
qed

theorem validateParams_spec_witness:
  "validateParams [''location'', ''Device'', ''bogus''] availableGeoIPParams
     = Some (InvalidParameter ''Device'')
   \<and> validateParams [''device'', ''location''] availableGeoIPParams = None
   \<and> validateParams [] availableGeoIPParams = None"
proof -
  have a: "validateParams [''location'', ''Device'', ''bogus''] availableGeoIPParams \<noteq> None"
    using validateParams_spec [of "[''location'', ''Device'', ''bogus'']" availableGeoIPParams]
    by (simp add: availableGeoIPParams_def)
  have b: "validateParams [''location'', ''Device'', ''bogus''] availableGeoIPParams
     = Some (InvalidParameter ''Device'')"
    by (simp add: availableGeoIPParams_def)
  have c: "validateParams [''device'', ''location''] availableGeoIPParams = None"
    using validateParams_spec [of "[''device'', ''location'']" availableGeoIPParams]
    by (simp add: availableGeoIPParams_def)
  have d: "validateParams [] availableGeoIPParams = None"
    using validateParams_spec [of "[]" availableGeoIPParams] by simp
  from a b c d show ?thesis by simp
qed

text \<open>
  Claim C6. \<open>validateLang\<close> returns no error exactly when the upper-cased code
  (\<open>strings.ToUpper\<close> of the code) is one of the eight codes of the table
  \<open>allowedLangs\<close>, and returns \<open>UnsupportedLanguage\<close> with the code as given for
  every other code. The verdict depends on the code only through its upper-cased form:
  two codes with the same upper-cased form get the same verdict, and for a code of
  ASCII bytes lower-casing or upper-casing it first does not change the verdict.
\<close>

theorem validateLang_spec:
  "set allowedLangs = {''EN'', ''AR'', ''DE'', ''FR'', ''ES'', ''JA'', ''ZH'', ''RU''}
   \<and> (validateLang env code = None \<longleftrightarrow> ToUpper env code \<in> set allowedLangs)
   \<and> (ToUpper env code \<notin> set allowedLangs
        \<longrightarrow> validateLang env code = Some (UnsupportedLanguage code))
   \<and> (ToUpper env code = ToUpper env code'
        \<longrightarrow> (validateLang env code = None \<longleftrightarrow> validateLang env code' = None))
   \<and> (isASCII code
        \<longrightarrow> (validateLang env (ToLower env code) = None \<longleftrightarrow> validateLang env code = None)
          \<and> (validateLang env (ToUpper env code) = None \<longleftrightarrow> validateLang env code = None))"
proof (intro conjI impI)
  show "set allowedLangs = {''EN'', ''AR'', ''DE'', ''FR'', ''ES'', ''JA'', ''ZH'', ''RU''}"
    by (auto simp add: allowedLangs_def)
  show "validateLang env code = None \<longleftrightarrow> ToUpper env code \<in> set allowedLangs"
    by (simp add: validateLang_def contains_iff)
next
  assume "ToUpper env code \<notin> set allowedLangs"
  then show "validateLang env code = Some (UnsupportedLanguage code)"
    by (simp add: validateLang_def contains_iff)
next
  assume "ToUpper env code = ToUpper env code'"
  then show "validateLang env code = None \<longleftrightarrow> validateLang env code' = None"
    by (simp add: validateLang_def)
next
  assume "isASCII code"
  then show "validateLang env (ToLower env code) = None \<longleftrightarrow> validateLang env code = None"
    by (simp add: validateLang_def ToUpper_ToLower)
next
  assume "isASCII code"
  then show "validateLang env (ToUpper env code) = None \<longleftrightarrow> validateLang env code = None"
    by (simp add: validateLang_def ToUpper_idem)
qed

theorem validateLang_spec_witness:
  "validateLang (exampleLib ok200 successData) ''fr'' = None
   \<and> validateLang (exampleLib ok200 successData) ''Fr'' = None
   \<and> validateLang (exampleLib ok200 successData) ''FR'' = None
   \<and> ToUpper (exampleLib ok200 successData) ''IT'' \<notin> set allowedLangs
   \<and> validateLang (exampleLib ok200 successData) ''IT'' = Some (UnsupportedLanguage ''IT'')
   \<and> \<not> isASCII longEs
   \<and> validateLang (exampleLib ok200 successData) longEs = None"
proof -
  let ?env = "exampleLib ok200 successData"
  have fr: "ToUpper ?env ''FR'' \<in> set allowedLangs"
    by (simp add: allowedLangs_def case_defs)
  have same: "ToUpper ?env ''FR'' = ToUpper ?env ''fr''"
    by (simp add: case_defs)
  have ascii: "isASCII ''FR''" "ToLower ?env ''FR'' = ''fr''"
    by (simp_all add: case_defs)
  have it: "ToUpper ?env ''IT'' \<notin> set allowedLangs"
    by (simp add: allowedLangs_def case_defs)
  have na: "\<not> isASCII longEs"
    by (simp add: isASCII_def longEs_def)
  have es: "ToUpper ?env longEs \<in> set allowedLangs"
    by (simp add: ToUpper_def na exampleLib_def allowedLangs_def)
  have Fr: "ToUpper ?env ''Fr'' \<in> set allowedLangs"
    by (simp add: allowedLangs_def case_defs)
  note FR = validateLang_spec [where env = ?env and code = "''FR''" and code' = "''fr''"]
  from FR [THEN conjunct2, THEN conjunct1] fr
  have 1: "validateLang ?env ''FR'' = None" by simp
  from FR [THEN conjunct2, THEN conjunct2, THEN conjunct2, THEN conjunct1] same 1
  have 2: "validateLang ?env ''fr'' = None" by simp
  from FR [THEN conjunct2, THEN conjunct2, THEN conjunct2, THEN conjunct2] ascii 1
  have lower: "validateLang ?env ''fr'' = None" by simp
  from validateLang_spec [where env = ?env and code = "''Fr''", THEN conjunct2, THEN conjunct1] Fr
  have 3: "validateLang ?env ''Fr'' = None" by simp
  from validateLang_spec [where env = ?env and code = "''IT''", THEN conjunct2, THEN conjunct2,
      THEN conjunct1] it
  have 4: "validateLang ?env ''IT'' = Some (UnsupportedLanguage ''IT'')" by (rule mp)
  from validateLang_spec [where env = ?env and code = longEs, THEN conjunct2, THEN conjunct1] es
  have 5: "validateLang ?env longEs = None" by simp
  from 2 3 1 it 4 na 5 show ?thesis by (intro conjI)
qed

section \<open>Request executors\<close>

text \<open>
  Claim C4. When the status code of the response lies outside the interval from 200
  (included) to 300 (excluded), the result is \<open>TransportError\<close> with that status
  code: whatever the body holds and whatever the JSON decoder would make of it (the
  result is the same for every body \<open>b\<close> and every decoder \<open>d\<close>), and for both
  executors, whenever the request they sent was answered with that response.
\<close>

theorem non_2xx_is_TransportError:
  assumes "StatusCode resp < 200 \<or> 300 \<le> StatusCode resp"
  shows "handleResponse (env\<lparr>json_Decode := d\<rparr>) (resp\<lparr>RespBody := b\<rparr>) target
           = Returned (Some (TransportError (StatusCode resp)), target)
     \<and> (getRequest g env endpoint target payloads = (out, sent) \<and> req \<in> set sent
           \<and> client_Do env req = Inr resp
         \<longrightarrow> out = Returned (Some (TransportError (StatusCode resp)), target))
     \<and> (postRequest g env endpoint target payload = (out', sent') \<and> req' \<in> set sent'
           \<and> client_Do env req' = Inr resp
         \<longrightarrow> out' = Returned (Some (TransportError (StatusCode resp)), target))"
proof (intro conjI impI)
  from assms show "handleResponse (env\<lparr>json_Decode := d\<rparr>) (resp\<lparr>RespBody := b\<rparr>) target
           = Returned (Some (TransportError (StatusCode resp)), target)"
    by (simp add: handleResponse_non_2xx)
next
  assume "getRequest g env endpoint target payloads = (out, sent) \<and> req \<in> set sent
           \<and> client_Do env req = Inr resp"
  with getRequest_sent [of g env endpoint target payloads out sent req]
  have "out = handleResponse env resp target" by simp
  with assms show "out = Returned (Some (TransportError (StatusCode resp)), target)"
    by (simp add: handleResponse_non_2xx)
next
  assume "postRequest g env endpoint target payload = (out', sent') \<and> req' \<in> set sent'
           \<and> client_Do env req' = Inr resp"
  with postRequest_sent [of g env endpoint target payload out' sent' req']
  have "out' = handleResponse env resp target" by simp
  with assms show "out' = Returned (Some (TransportError (StatusCode resp)), target)"
    by (simp add: handleResponse_non_2xx)
qed

theorem non_2xx_is_TransportError_witness:
  "StatusCode fail500 = 500
   \<and> fst (getRequest liveClient (exampleLib fail500 successData) ''IPLookup'' ''zero''
             [Some Map.empty]) = Returned (Some (TransportError 500), ''zero'')
   \<and> fst (postRequest liveClient (exampleLib fail500 successData) ''paymentFraud'' ''zero''
             (Some Map.empty)) = Returned (Some (TransportError 500), ''zero'')"
proof -
  let ?env = "exampleLib fail500 successData"
  let ?G = "getRequest liveClient ?env ''IPLookup'' ''zero'' [Some Map.empty]"
  let ?P = "postRequest liveClient ?env ''paymentFraud'' ''zero'' (Some Map.empty)"
  have c: "StatusCode fail500 = 500" by (simp add: fail500_def)
  have h: "StatusCode fail500 < 200 \<or> 300 \<le> StatusCode fail500" by (simp add: fail500_def)
  have d: "\<And>r. client_Do ?env r = Inr fail500" by (simp add: exampleLib_def)
  have g: "hd (snd ?G) \<in> set (snd ?G)"
    by (simp add: getRequest_def example_defs)
  have p: "hd (snd ?P) \<in> set (snd ?P)"
    by (simp add: postRequest_def example_defs mapValue_def)
  from non_2xx_is_TransportError [OF h, where env = ?env and g = liveClient
      and endpoint = "''IPLookup''" and target = "''zero''" and payloads = "[Some Map.empty]"
      and out = "fst ?G" and sent = "snd ?G" and req = "hd (snd ?G)"] g d
  have 1: "fst ?G = Returned (Some (TransportError (StatusCode fail500)), ''zero'')" by simp
  from non_2xx_is_TransportError [OF h, where env = ?env and g = liveClient
      and endpoint = "''paymentFraud''" and target = "''zero''" and payload = "Some Map.empty"
      and out' = "fst ?P" and sent' = "snd ?P" and req' = "hd (snd ?P)"] p d
  have 2: "fst ?P = Returned (Some (TransportError (StatusCode fail500)), ''zero'')" by simp
  from c 1 2 show ?thesis by simp
qed

text \<open>
  Claim C3. With the test-mode flag of the client handle set, every request that
  \<open>getRequest\<close> sends has \<open>test\<close> as the value added last under the query key
  \<open>mode\<close>, whatever the payload held under that key; every request that
  \<open>postRequest\<close> sends has as body the JSON of the payload map with \<open>mode\<close> set
  to \<open>"test"\<close>. The same holds for every request sent by each of the nine GET
  endpoint methods and by \<open>Payment\<close>, for all their arguments: the body of
  \<open>Payment\<close> is the JSON of \<open>{"data": d, "mode": "test"}\<close>, so no argument of a
  call changes the marker.
\<close>

theorem test_mode_marks_every_request:
  assumes "test g"
  shows "(req \<in> set (snd (getRequest g env endpoint target payloads))
            \<longrightarrow> queryEndsWith req ''mode'' ''test'')
     \<and> (req \<in> set (snd (postRequest g env endpoint target payload))
            \<longrightarrow> (\<exists>m bytes. payload = Some m
                   \<and> json_Marshal env (JObj (m(''mode'' \<mapsto> JStr ''test''))) = Inr bytes
                   \<and> ReqBody req = Some bytes))
     \<and> (req \<in> set (snd (Lookup g env target ip params lang))
          \<or> req \<in> set (snd (Threats g env target ip))
          \<or> req \<in> set (snd (BulkLookup g env target ips params lang))
          \<or> req \<in> set (snd (Country g env target countryCode params lang))
          \<or> req \<in> set (snd (Profanity g env target txt))
          \<or> req \<in> set (snd (AsnLookup g env target asn))
          \<or> req \<in> set (snd (Email g env target email))
          \<or> req \<in> set (snd (Phone g env target phone countryCode))
          \<or> req \<in> set (snd (IBAN g env target iban))
            \<longrightarrow> queryEndsWith req ''mode'' ''test'')
     \<and> (req \<in> set (snd (Payment g env target data))
            \<longrightarrow> (\<exists>d bytes. data = Some d
                   \<and> json_Marshal env (JObj [''data'' \<mapsto> JObj d, ''mode'' \<mapsto> JStr ''test''])
                       = Inr bytes
                   \<and> ReqBody req = Some bytes))"
proof (intro conjI impI)
  assume "req \<in> set (snd (getRequest g env endpoint target payloads))"
  with assms show "queryEndsWith req ''mode'' ''test''" by (rule getRequest_mode)
next
  assume a: "req \<in> set (snd (postRequest g env endpoint target payload))"
  show "\<exists>m bytes. payload = Some m
      \<and> json_Marshal env (JObj (m(''mode'' \<mapsto> JStr ''test''))) = Inr bytes
      \<and> ReqBody req = Some bytes"
  proof (cases payload)
    case None
    with a assms show ?thesis by (simp add: postRequest_nil)
  next
    case (Some m)
    with a have "req \<in> set (snd (postRequest g env endpoint target (Some m)))" by simp
    from postRequest_mode [OF assms this] Some show ?thesis by simp
  qed
next
  have get: "queryEndsWith req ''mode'' ''test''"
    if "req \<in> set (snd (getRequest g env e target [Some p]))" for e p
    using assms that by (rule getRequest_mode)
  have c1: "queryEndsWith req ''mode'' ''test''"
    if a: "req \<in> set (snd (Lookup g env target ip params lang))"
  proof -
    from Lookup_sent [OF a] obtain p where
      "req \<in> set (snd (getRequest g env ''IPLookup'' target [Some p]))" by (elim exE)
    then show ?thesis by (rule get)
  qed
  have c2: "queryEndsWith req ''mode'' ''test''"
    if a: "req \<in> set (snd (Threats g env target ip))"
  proof -
    from simple_sent(1) [OF a] obtain p where
      "req \<in> set (snd (getRequest g env ''threats'' target [Some p]))" by (elim exE)
    then show ?thesis by (rule get)
  qed
  have c3: "queryEndsWith req ''mode'' ''test''"
    if a: "req \<in> set (snd (BulkLookup g env target ips params lang))"
  proof -
    from BulkLookup_sent [OF a] obtain p where
      "req \<in> set (snd (getRequest g env ''BulkLookup'' target [Some p]))" by (elim exE)
    then show ?thesis by (rule get)
  qed
  have c4: "queryEndsWith req ''mode'' ''test''"
    if a: "req \<in> set (snd (Country g env target countryCode params lang))"
  proof -
    from Country_sent [OF a] obtain p where
      "req \<in> set (snd (getRequest g env ''Country'' target [Some p]))" by (elim exE)
    then show ?thesis by (rule get)
  qed
  have c5: "queryEndsWith req ''mode'' ''test''"
    if a: "req \<in> set (snd (Profanity g env target txt))"
  proof -
    from simple_sent(2) [OF a] obtain p where
      "req \<in> set (snd (getRequest g env ''badWords'' target [Some p]))" by (elim exE)
    then show ?thesis by (rule get)
  qed
  have c6: "queryEndsWith req ''mode'' ''test''"
    if a: "req \<in> set (snd (AsnLookup g env target asn))"
  proof -
    from simple_sent(3) [OF a] obtain p where
      "req \<in> set (snd (getRequest g env ''ASNLookup'' target [Some p]))" by (elim exE)
    then show ?thesis by (rule get)
  qed
  have c7: "queryEndsWith req ''mode'' ''test''"
    if a: "req \<in> set (snd (Email g env target email))"
  proof -
    from simple_sent(4) [OF a] obtain p where
      "req \<in> set (snd (getRequest g env ''validateEmail'' target [Some p]))" by (elim exE)
    then show ?thesis by (rule get)
  qed
  have c8: "queryEndsWith req ''mode'' ''test''"
    if a: "req \<in> set (snd (Phone g env target phone countryCode))"
  proof -
    from simple_sent(5) [OF a] obtain p where
      "req \<in> set (snd (getRequest g env ''validatePhone'' target [Some p]))" by (elim exE)
    then show ?thesis by (rule get)
  qed
  have c9: "queryEndsWith req ''mode'' ''test''"
    if a: "req \<in> set (snd (IBAN g env target iban))"
  proof -
    from simple_sent(6) [OF a] obtain p where
      "req \<in> set (snd (getRequest g env ''validateIBAN'' target [Some p]))" by (elim exE)
    then show ?thesis by (rule get)
  qed
  assume "req \<in> set (snd (Lookup g env target ip params lang))
          \<or> req \<in> set (snd (Threats g env target ip))
          \<or> req \<in> set (snd (BulkLookup g env target ips params lang))
          \<or> req \<in> set (snd (Country g env target countryCode params lang))
          \<or> req \<in> set (snd (Profanity g env target txt))
          \<or> req \<in> set (snd (AsnLookup g env target asn))
          \<or> req \<in> set (snd (Email g env target email))
          \<or> req \<in> set (snd (Phone g env target phone countryCode))
          \<or> req \<in> set (snd (IBAN g env target iban))"
  then show "queryEndsWith req ''mode'' ''test''"
    by (elim disjE) (rule c1 c2 c3 c4 c5 c6 c7 c8 c9, assumption)+
next
  assume "req \<in> set (snd (Payment g env target data))"
  from Payment_sent [OF this] obtain d where d: "data = Some d"
    "req \<in> set (snd (postRequest g env ''paymentFraud'' target (Some [''data'' \<mapsto> JObj d])))"
    by (elim exE conjE)
  from postRequest_mode [OF assms d(2)] obtain bytes where
    "json_Marshal env (JObj [''data'' \<mapsto> JObj d, ''mode'' \<mapsto> JStr ''test'']) = Inr bytes"
    "ReqBody req = Some bytes"
    by (elim exE conjE)
  with d(1) show "\<exists>d bytes. data = Some d
      \<and> json_Marshal env (JObj [''data'' \<mapsto> JObj d, ''mode'' \<mapsto> JStr ''test'']) = Inr bytes
      \<and> ReqBody req = Some bytes"
    by (intro exI conjI)
qed

theorem test_mode_marks_every_request_witness:
  "test testClient
   \<and> snd (Lookup testClient (exampleLib ok200 successData) ''zero'' ''1.1.1.1'' None []) \<noteq> []
   \<and> queryEndsWith
         (hd (snd (Lookup testClient (exampleLib ok200 successData) ''zero'' ''1.1.1.1'' None [])))
         ''mode'' ''test''
   \<and> snd (Payment testClient (exampleLib ok200 successData) ''zero''
              (Some [''mode'' \<mapsto> JStr ''live''])) \<noteq> []
   \<and> ReqBody (hd (snd (Payment testClient (exampleLib ok200 successData) ''zero''
              (Some [''mode'' \<mapsto> JStr ''live''])))) = Some ''json''"
proof -
  let ?env = "exampleLib ok200 successData"
  let ?L = "Lookup testClient ?env ''zero'' ''1.1.1.1'' None []"
  let ?P = "Payment testClient ?env ''zero'' (Some [''mode'' \<mapsto> JStr ''live''])"
  have t: "test testClient" by (simp add: example_defs)
  have l: "snd ?L \<noteq> []"
    by (simp add: Lookup_def snd_returnResponse getRequest_def setTestMode_def elems_def
        validateLang_def allowedLangs_def availableGeoIPParams_def example_defs case_defs)
  have p: "snd ?P \<noteq> []"
    by (simp add: Payment_def snd_returnResponse postRequest_def mapValue_def example_defs)
  from l have lm: "hd (snd ?L) \<in> set (snd ?L)" by simp
  from p have pm: "hd (snd ?P) \<in> set (snd ?P)" by simp
  have m: "\<And>v. json_Marshal ?env v = Inr ''json''" by (simp add: exampleLib_def)
  note T = test_mode_marks_every_request [OF t, where req = "hd (snd ?L)" and env = ?env
      and target = "''zero''" and ip = "''1.1.1.1''" and params = None and lang = "[]"]
  from T [THEN conjunct2, THEN conjunct2, THEN conjunct1] lm
  have 1: "queryEndsWith (hd (snd ?L)) ''mode'' ''test''" by simp
  note U = test_mode_marks_every_request [OF t, where req = "hd (snd ?P)" and env = ?env
      and target = "''zero''" and data = "Some [''mode'' \<mapsto> JStr ''live'']"]
  from U [THEN conjunct2, THEN conjunct2, THEN conjunct2] pm
  have "\<exists>d bytes. Some [''mode'' \<mapsto> JStr ''live''] = Some d
      \<and> json_Marshal ?env (JObj [''data'' \<mapsto> JObj d, ''mode'' \<mapsto> JStr ''test'']) = Inr bytes
      \<and> ReqBody (hd (snd ?P)) = Some bytes"
    by (rule mp)
  then obtain d bytes where
    "json_Marshal ?env (JObj [''data'' \<mapsto> JObj d, ''mode'' \<mapsto> JStr ''test'']) = Inr bytes"
    "ReqBody (hd (snd ?P)) = Some bytes"
    by (elim exE conjE)
  with m have 2: "ReqBody (hd (snd ?P)) = Some ''json''" by simp
  from t l 1 p 2 show ?thesis by (intro conjI)
qed

section \<open>Envelope decoder\<close>

text \<open>
  Claim C7. For a decoded envelope with no \<open>data\<close> entry whose \<open>status\<close> entry is
  not a string that lower-cases to \<open>error\<close>, the envelope decoder returns the error
  \<open>MalformedEnvelope\<close> ("invalid response format: missing data field"), and so do
  both executors when a response with a status code in the 2xx range decodes to such an
  envelope.
\<close>

theorem missing_data_is_MalformedEnvelope:
  assumes "jsonResponse ''data'' = None"
    and "\<not> (\<exists>s. jsonResponse ''status'' = Some (JStr s) \<and> ToLower env s = ''error'')"
  shows "decodeEnvelope env jsonResponse target = Returned (Some MalformedEnvelope, target)
     \<and> (getRequest g env endpoint target payloads = (out, sent) \<and> req \<in> set sent
           \<and> client_Do env req = Inr resp \<and> 200 \<le> StatusCode resp \<and> StatusCode resp < 300
           \<and> json_Decode env (RespBody resp) = Inr jsonResponse
         \<longrightarrow> out = Returned (Some MalformedEnvelope, target))
     \<and> (postRequest g env endpoint target payload = (out', sent') \<and> req' \<in> set sent'
           \<and> client_Do env req' = Inr resp \<and> 200 \<le> StatusCode resp \<and> StatusCode resp < 300
           \<and> json_Decode env (RespBody resp) = Inr jsonResponse
         \<longrightarrow> out' = Returned (Some MalformedEnvelope, target))"
proof -
  from assms(2) have ne: "\<not> statusIsError env jsonResponse"
    by (simp add: statusIsError_iff)
  with assms(1) have d: "decodeEnvelope env jsonResponse target
      = Returned (Some MalformedEnvelope, target)"
    by (simp add: decodeEnvelope_missing_data)
  have g: "out = Returned (Some MalformedEnvelope, target)"
    if "getRequest g env endpoint target payloads = (out, sent) \<and> req \<in> set sent
           \<and> client_Do env req = Inr resp \<and> 200 \<le> StatusCode resp \<and> StatusCode resp < 300
           \<and> json_Decode env (RespBody resp) = Inr jsonResponse"
  proof -
    from that getRequest_sent [of g env endpoint target payloads out sent req]
    have "out = handleResponse env resp target" by simp
    with that d show ?thesis by (simp add: handleResponse_2xx)
  qed
  have p: "out' = Returned (Some MalformedEnvelope, target)"
    if "postRequest g env endpoint target payload = (out', sent') \<and> req' \<in> set sent'
           \<and> client_Do env req' = Inr resp \<and> 200 \<le> StatusCode resp \<and> StatusCode resp < 300
           \<and> json_Decode env (RespBody resp) = Inr jsonResponse"
  proof -
    from that postRequest_sent [of g env endpoint target payload out' sent' req']
    have "out' = handleResponse env resp target" by simp
    with that d show ?thesis by (simp add: handleResponse_2xx)
  qed
  from d g p show ?thesis by blast
qed

theorem missing_data_is_MalformedEnvelope_witness:
  "successNoData ''data'' = None
   \<and> \<not> (\<exists>s. successNoData ''status'' = Some (JStr s)
            \<and> ToLower (exampleLib ok200 successNoData) s = ''error'')
   \<and> fst (getRequest liveClient (exampleLib ok200 successNoData) ''IPLookup'' ''zero''
             [Some Map.empty]) = Returned (Some MalformedEnvelope, ''zero'')
   \<and> fst (postRequest liveClient (exampleLib ok200 successNoData) ''paymentFraud'' ''zero''
             (Some Map.empty)) = Returned (Some MalformedEnvelope, ''zero'')"
proof -
  let ?env = "exampleLib ok200 successNoData"
  let ?G = "getRequest liveClient ?env ''IPLookup'' ''zero'' [Some Map.empty]"
  let ?P = "postRequest liveClient ?env ''paymentFraud'' ''zero'' (Some Map.empty)"
  have a: "successNoData ''data'' = None" by (simp add: successNoData_def)
  have b: "\<not> (\<exists>s. successNoData ''status'' = Some (JStr s) \<and> ToLower ?env s = ''error'')"
    by (simp add: successNoData_def case_defs)
  have d: "\<And>r. client_Do ?env r = Inr ok200" "json_Decode ?env (RespBody ok200) = Inr successNoData"
    "200 \<le> StatusCode ok200" "StatusCode ok200 < 300"
    by (simp_all add: exampleLib_def ok200_def)
  have g: "hd (snd ?G) \<in> set (snd ?G)"
    by (simp add: getRequest_def example_defs)
  have p: "hd (snd ?P) \<in> set (snd ?P)"
    by (simp add: postRequest_def example_defs mapValue_def)
  from missing_data_is_MalformedEnvelope [OF a b, where g = liveClient
      and endpoint = "''IPLookup''" and target = "''zero''" and payloads = "[Some Map.empty]"
      and out = "fst ?G" and sent = "snd ?G" and req = "hd (snd ?G)" and resp = ok200] g d
  have 1: "fst ?G = Returned (Some MalformedEnvelope, ''zero'')" by simp
  from missing_data_is_MalformedEnvelope [OF a b, where g = liveClient
      and endpoint = "''paymentFraud''" and target = "''zero''" and payload = "Some Map.empty"
      and out' = "fst ?P" and sent' = "snd ?P" and req' = "hd (snd ?P)" and resp = ok200] p d
  have 2: "fst ?P = Returned (Some MalformedEnvelope, ''zero'')" by simp
  from a b 1 2 show ?thesis by simp
qed

text \<open>
  Claim C1, at the envelope \<open>{"status": "error"}\<close>: the status is an error status
  and there is no description. The unchecked type assertion of helpers.go, line 62
  (line 130 in \<open>postRequest\<close>), panics: the decoder and both executors end in a panic
  and return no error value. With a description that is a string the decoder returns
  \<open>APIError\<close> with that string (\<open>decodeEnvelope_APIError\<close>).
\<close>

theorem error_status_without_description_panics:
  "statusIsError env errorNoDescription
   \<and> errorNoDescription ''description'' = None
   \<and> decodeEnvelope env errorNoDescription target = Panicked InterfaceConversion
   \<and> fst (getRequest liveClient (exampleLib ok200 errorNoDescription) ''IPLookup'' ''zero''
             [emptyData]) = Panicked InterfaceConversion
   \<and> fst (postRequest liveClient (exampleLib ok200 errorNoDescription) ''paymentFraud'' ''zero''
             emptyData) = Panicked InterfaceConversion"
  by (simp add: decodeEnvelope_def statusIsError_def getRequest_def postRequest_def
      handleResponse_def mapValue_def example_defs case_defs)

lemma api_error_example:
  "fst (getRequest liveClient (exampleLib ok200 errorBadToken) ''IPLookup'' ''zero''
             [Some Map.empty]) = Returned (Some (APIError ''bad token''), ''zero'')"
  by (simp add: decodeEnvelope_def statusIsError_def getRequest_def postRequest_def
      handleResponse_def mapValue_def example_defs case_defs)

section \<open>Endpoint methods\<close>

text \<open>
  Claim C9. In \<open>Lookup\<close>, \<open>BulkLookup\<close> and \<open>Country\<close>, a call without the
  language argument that passes the checks of its other arguments hands to the GET
  executor a payload whose \<open>lang\<close> entry is \<open>"EN"\<close>, and, when the URL parses, sends
  one request whose query carries \<open>lang=EN\<close> (after the values the URL itself holds
  under \<open>lang\<close>). A call without the argument is the call with the argument \<open>"EN"\<close>,
  and every request such a call sends has \<open>EN\<close> as the value added last under the
  query key \<open>lang\<close>.
\<close>

theorem absent_lang_defaults_to_EN:
  "(ip \<noteq> [] \<and> validateParams (elems params) availableGeoIPParams = None \<longrightarrow>
      Lookup g env target ip params [] =
        returnResponse (getRequest g env ''IPLookup'' target
          [Some [''ip'' \<mapsto> JStr ip, ''params'' \<mapsto> JStr (Join (elems params) '',''),
                 ''lang'' \<mapsto> JStr ''EN'']])
      \<and> (url_Parse env (BaseURL g @ ''IPLookup'') = Inr q \<longrightarrow>
            queryValues ''lang'' (snd (Lookup g env target ip params []))
              = [Some (elems (q ''lang'') @ [''EN''])]))
   \<and> (ips \<noteq> None \<and> validateParams (elems params) availableGeoIPParams = None \<longrightarrow>
      BulkLookup g env target ips params [] =
        returnResponse (getRequest g env ''BulkLookup'' target
          [Some [''ips'' \<mapsto> JStr (Join (elems ips) '',''),
                 ''params'' \<mapsto> JStr (Join (elems params) '',''), ''lang'' \<mapsto> JStr ''EN'']])
      \<and> (url_Parse env (BaseURL g @ ''BulkLookup'') = Inr q \<longrightarrow>
            queryValues ''lang'' (snd (BulkLookup g env target ips params []))
              = [Some (elems (q ''lang'') @ [''EN''])]))
   \<and> (countryCode \<noteq> [] \<and> validateParams (elems params) availableCountryParams = None \<longrightarrow>
      Country g env target countryCode params [] =
        returnResponse (getRequest g env ''Country'' target
          [Some [''CountryCode'' \<mapsto> JStr countryCode,
                 ''params'' \<mapsto> JStr (Join (elems params) '',''), ''lang'' \<mapsto> JStr ''EN'']])
      \<and> (url_Parse env (BaseURL g @ ''Country'') = Inr q \<longrightarrow>
            queryValues ''lang'' (snd (Country g env target countryCode params []))
              = [Some (elems (q ''lang'') @ [''EN''])]))
   \<and> Lookup g env target ip params [] = Lookup g env target ip params [''EN'']
   \<and> BulkLookup g env target ips params [] = BulkLookup g env target ips params [''EN'']
   \<and> Country g env target countryCode params [] = Country g env target countryCode params [''EN'']
   \<and> (req \<in> set (snd (Lookup g env target ip params []))
        \<or> req \<in> set (snd (BulkLookup g env target ips params []))
        \<or> req \<in> set (snd (Country g env target countryCode params []))
          \<longrightarrow> queryEndsWith req ''lang'' ''EN'')"
proof -
  have L: "Lookup g env target ip params [] =
        returnResponse (getRequest g env ''IPLookup'' target
          [Some [''ip'' \<mapsto> JStr ip, ''params'' \<mapsto> JStr (Join (elems params) '',''),
                 ''lang'' \<mapsto> JStr ''EN'']])"
    if "ip \<noteq> [] \<and> validateParams (elems params) availableGeoIPParams = None"
    using that Lookup_valid [of ip params env "[]" g target]
    by (simp add: validateLang_EN ToUpper_EN)
  have Lq: "queryValues ''lang'' (snd (Lookup g env target ip params []))
              = [Some (elems (q ''lang'') @ [''EN''])]"
    if "ip \<noteq> [] \<and> validateParams (elems params) availableGeoIPParams = None"
      and "url_Parse env (BaseURL g @ ''IPLookup'') = Inr q"
    using that(2) by (simp add: L [OF that(1)] snd_returnResponse getRequest_lang_values)
  have B: "BulkLookup g env target ips params [] =
        returnResponse (getRequest g env ''BulkLookup'' target
          [Some [''ips'' \<mapsto> JStr (Join (elems ips) '',''),
                 ''params'' \<mapsto> JStr (Join (elems params) '',''), ''lang'' \<mapsto> JStr ''EN'']])"
    if "ips \<noteq> None \<and> validateParams (elems params) availableGeoIPParams = None"
  proof -
    from that obtain xs where xs: "ips = Some xs" by (cases ips) simp_all
    from that BulkLookup_valid [of params env "[]" g target xs] xs show ?thesis
      by (simp add: validateLang_EN ToUpper_EN elems_def)
  qed
  have Bq: "queryValues ''lang'' (snd (BulkLookup g env target ips params []))
              = [Some (elems (q ''lang'') @ [''EN''])]"
    if "ips \<noteq> None \<and> validateParams (elems params) availableGeoIPParams = None"
      and "url_Parse env (BaseURL g @ ''BulkLookup'') = Inr q"
    using that(2) by (simp add: B [OF that(1)] snd_returnResponse getRequest_lang_values)
  have C: "Country g env target countryCode params [] =
        returnResponse (getRequest g env ''Country'' target
          [Some [''CountryCode'' \<mapsto> JStr countryCode,
                 ''params'' \<mapsto> JStr (Join (elems params) '',''), ''lang'' \<mapsto> JStr ''EN'']])"
    if "countryCode \<noteq> [] \<and> validateParams (elems params) availableCountryParams = None"
    using that Country_valid [of countryCode params env "[]" g target]
    by (simp add: validateLang_EN ToUpper_EN)
  have Cq: "queryValues ''lang'' (snd (Country g env target countryCode params []))
              = [Some (elems (q ''lang'') @ [''EN''])]"
    if "countryCode \<noteq> [] \<and> validateParams (elems params) availableCountryParams = None"
      and "url_Parse env (BaseURL g @ ''Country'') = Inr q"
    using that(2) by (simp add: C [OF that(1)] snd_returnResponse getRequest_lang_values)
  have E1: "Lookup g env target ip params [] = Lookup g env target ip params [''EN'']"
    by (simp add: Lookup_def)
  have E2: "BulkLookup g env target ips params [] = BulkLookup g env target ips params [''EN'']"
    by (simp add: BulkLookup_def)
  have E3: "Country g env target countryCode params []
      = Country g env target countryCode params [''EN'']"
    by (simp add: Country_def)
  have Q: "queryEndsWith req ''lang'' ''EN''"
    if "req \<in> set (snd (Lookup g env target ip params []))
        \<or> req \<in> set (snd (BulkLookup g env target ips params []))
        \<or> req \<in> set (snd (Country g env target countryCode params []))"
    using that by (elim disjE)
       (rule Lookup_default_lang BulkLookup_default_lang Country_default_lang, assumption)+
  show ?thesis
    by (intro conjI impI) ((rule L Lq B Bq C Cq Q, assumption+) | rule E1 E2 E3)+
qed

theorem absent_lang_defaults_to_EN_witness:
  "queryValues ''lang''
     (snd (Lookup liveClient (exampleLib ok200 successData) ''zero'' ''1.1.1.1'' None []))
     = [Some [''EN'']]
   \<and> queryValues ''lang''
     (snd (BulkLookup liveClient (exampleLib ok200 successData) ''zero''
            (Some [''1.1.1.1'', ''8.8.8.8'']) None []))
     = [Some [''EN'']]
   \<and> queryValues ''lang''
     (snd (Country liveClient (exampleLib ok200 successData) ''zero'' ''US'' (Some [''flag'']) []))
     = [Some [''EN'']]
   \<and> queryEndsWith
        (hd (snd (Country liveClient (exampleLib ok200 successData) ''zero'' ''US''
                    (Some [''flag'']) [])))
        ''lang'' ''EN''
   \<and> fst (Lookup liveClient (exampleLib ok200 successData) ''zero'' ''1.1.1.1'' None [''EN''])
       = Returned (Some ''json'', None)"
proof -
  let ?env = "exampleLib ok200 successData"
  let ?L = "Lookup liveClient ?env ''zero'' ''1.1.1.1'' None []"
  let ?B = "BulkLookup liveClient ?env ''zero'' (Some [''1.1.1.1'', ''8.8.8.8'']) None []"
  let ?C = "Country liveClient ?env ''zero'' ''US'' (Some [''flag'']) []"
  have v: "validateParams (elems None) availableGeoIPParams = None"
    "validateParams (elems (Some [''flag''])) availableCountryParams = None"
    by (simp_all add: elems_def availableCountryParams_def)
  have n: "''1.1.1.1'' \<noteq> []" "Some [''1.1.1.1'', ''8.8.8.8''] \<noteq> None" "''US'' \<noteq> []"
    by simp_all
  have u: "url_Parse ?env (BaseURL liveClient @ ''IPLookup'') = Inr Map.empty"
    "url_Parse ?env (BaseURL liveClient @ ''BulkLookup'') = Inr Map.empty"
    "url_Parse ?env (BaseURL liveClient @ ''Country'') = Inr Map.empty"
    by (simp_all add: example_defs)
  have e: "elems (Map.empty ''lang'') @ [''EN''] = [''EN'']"
    by (simp add: elems_def)
  note T = absent_lang_defaults_to_EN [where g = liveClient and env = ?env
      and target = "''zero''" and ip = "''1.1.1.1''" and params = None and q = Map.empty
      and ips = "Some [''1.1.1.1'', ''8.8.8.8'']"]
  from n(1) v(1) have a1: "''1.1.1.1'' \<noteq> []
      \<and> validateParams (elems None) availableGeoIPParams = None"
    by (rule conjI)
  from n(2) v(1) have a2: "Some [''1.1.1.1'', ''8.8.8.8''] \<noteq> None
      \<and> validateParams (elems None) availableGeoIPParams = None"
    by (rule conjI)
  from n(3) v(2) have a3: "''US'' \<noteq> []
      \<and> validateParams (elems (Some [''flag''])) availableCountryParams = None"
    by (rule conjI)
  note T1 = T [THEN conjunct1, THEN mp, OF a1, THEN conjunct2, THEN mp, OF u(1)]
  note T2 = T [THEN conjunct2, THEN conjunct1, THEN mp, OF a2, THEN conjunct2, THEN mp, OF u(2)]
  note U = absent_lang_defaults_to_EN [where g = liveClient and env = ?env
      and target = "''zero''" and countryCode = "''US''" and params = "Some [''flag'']"
      and q = Map.empty and req = "hd (snd ?C)"]
  note U3 = U [THEN conjunct2, THEN conjunct2, THEN conjunct1, THEN mp, OF a3, THEN conjunct2,
      THEN mp, OF u(3)]
  from T1 have 1: "queryValues ''lang'' (snd ?L) = [Some [''EN'']]"
    by (simp only: e)
  from T2 have 2: "queryValues ''lang'' (snd ?B) = [Some [''EN'']]"
    by (simp only: e)
  from U3 have 3: "queryValues ''lang'' (snd ?C) = [Some [''EN'']]"
    by (simp only: e)
  from 3 have "snd ?C \<noteq> []" by (auto simp add: queryValues_def)
  then have cm: "hd (snd ?C) \<in> set (snd ?C)" by simp
  note U4 = U [THEN conjunct2, THEN conjunct2, THEN conjunct2, THEN conjunct2, THEN conjunct2,
      THEN conjunct2, THEN mp, OF disjI2 [OF disjI2 [OF cm]]]
  have f: "fst ?L = Returned (Some ''json'', None)"
    by (simp add: Lookup_def returnResponse_def getRequest_def setTestMode_def elems_def
        handleResponse_def decodeEnvelope_def statusIsError_def
        validateLang_def allowedLangs_def availableGeoIPParams_def example_defs case_defs)
  note E = T [THEN conjunct2, THEN conjunct2, THEN conjunct2, THEN conjunct1]
  from f have 5: "fst (Lookup liveClient ?env ''zero'' ''1.1.1.1'' None [''EN''])
       = Returned (Some ''json'', None)" by (simp only: E)
  from 1 2 3 U4 5 show ?thesis by (intro conjI)
qed

text \<open>
  Claim C10, as amended. \<open>getRequest\<close> reads \<open>payload[0]\<close> without a check of the
  length: called with no payload map it panics with an index out of range, before any
  request is sent, whenever the URL of the request parses; when \<open>http.NewRequest\<close>
  rejects the URL it returns that error first and the payload is not read. Each of the
  nine endpoint methods that use \<open>getRequest\<close> passes one payload map, and none of
  them ends in that panic, for any arguments.
\<close>

theorem zero_payloads_panic_after_url_parse:
  "(url_Parse env (BaseURL g @ endpoint) = Inr q
      \<longrightarrow> getRequest g env endpoint target [] = (Panicked IndexOutOfRange, []))
   \<and> (url_Parse env (BaseURL g @ endpoint) = Inl e
      \<longrightarrow> getRequest g env endpoint target [] = (Returned (Some (LibraryError e), target), []))
   \<and> fst (Lookup g env target ip params lang) \<noteq> Panicked IndexOutOfRange
   \<and> fst (Threats g env target ip) \<noteq> Panicked IndexOutOfRange
   \<and> fst (BulkLookup g env target ips params lang) \<noteq> Panicked IndexOutOfRange
   \<and> fst (Country g env target countryCode params lang) \<noteq> Panicked IndexOutOfRange
   \<and> fst (Profanity g env target txt) \<noteq> Panicked IndexOutOfRange
   \<and> fst (AsnLookup g env target asn) \<noteq> Panicked IndexOutOfRange
   \<and> fst (Email g env target email) \<noteq> Panicked IndexOutOfRange
   \<and> fst (Phone g env target phone countryCode) \<noteq> Panicked IndexOutOfRange
   \<and> fst (IBAN g env target iban) \<noteq> Panicked IndexOutOfRange"
proof (intro conjI impI)
  assume "url_Parse env (BaseURL g @ endpoint) = Inr q"
  then show "getRequest g env endpoint target [] = (Panicked IndexOutOfRange, [])"
    by (simp add: getRequest_def)
next
  assume "url_Parse env (BaseURL g @ endpoint) = Inl e"
  then show "getRequest g env endpoint target [] = (Returned (Some (LibraryError e), target), [])"
    by (simp add: getRequest_def)
next
  show "fst (Lookup g env target ip params lang) \<noteq> Panicked IndexOutOfRange"
    by (simp add: Lookup_def Let_def returnResponse_one_payload split: option.splits)
  show "fst (BulkLookup g env target ips params lang) \<noteq> Panicked IndexOutOfRange"
    by (simp add: BulkLookup_def Let_def returnResponse_one_payload split: option.splits)
  show "fst (Country g env target countryCode params lang) \<noteq> Panicked IndexOutOfRange"
    by (simp add: Country_def Let_def returnResponse_one_payload split: option.splits)
  show "fst (Threats g env target ip) \<noteq> Panicked IndexOutOfRange"
    by (simp add: Threats_def Let_def returnResponse_one_payload)
  show "fst (Profanity g env target txt) \<noteq> Panicked IndexOutOfRange"
    by (simp add: Profanity_def Let_def returnResponse_one_payload)
  show "fst (AsnLookup g env target asn) \<noteq> Panicked IndexOutOfRange"
    by (simp add: AsnLookup_def Let_def returnResponse_one_payload)
  show "fst (Email g env target email) \<noteq> Panicked IndexOutOfRange"
    by (simp add: Email_def Let_def returnResponse_one_payload)
  show "fst (Phone g env target phone countryCode) \<noteq> Panicked IndexOutOfRange"
    by (simp add: Phone_def Let_def returnResponse_one_payload)
  show "fst (IBAN g env target iban) \<noteq> Panicked IndexOutOfRange"
    by (simp add: IBAN_def Let_def returnResponse_one_payload)
qed

theorem zero_payloads_panic_after_url_parse_witness:
  "url_Parse (exampleLib ok200 successData) (BaseURL liveClient @ ''IPLookup'') = Inr Map.empty
   \<and> getRequest liveClient (exampleLib ok200 successData) ''IPLookup'' ''zero'' []
       = (Panicked IndexOutOfRange, [])"
proof -
  have u: "url_Parse (exampleLib ok200 successData) (BaseURL liveClient @ ''IPLookup'')
      = Inr Map.empty"
    by (simp add: example_defs)
  from zero_payloads_panic_after_url_parse [where env = "exampleLib ok200 successData"
      and g = liveClient and endpoint = "''IPLookup''" and q = Map.empty and target = "''zero''",
      THEN conjunct1] u
  have "getRequest liveClient (exampleLib ok200 successData) ''IPLookup'' ''zero'' []
       = (Panicked IndexOutOfRange, [])" by (rule mp)
  with u show ?thesis by (intro conjI)
qed

text \<open>
  Claim C10 as stated fails for a client whose base URL does not parse: with no payload
  map the call returns the error of \<open>http.NewRequest\<close> and does not panic.
\<close>

theorem zero_payloads_bad_url_counterexample:
  "getRequest badUrlClient (exampleLib ok200 successData) ''IPLookup'' ''zero'' []
     = (Returned (Some (LibraryError ''missing protocol scheme''), ''zero''), [])"
  by (simp add: getRequest_def example_defs)

text \<open>
  Claim C2, as amended. Every endpoint method returns \<open>MissingParameter\<close> naming the
  parameter, with a nil result and without sending a request, when a required string
  argument is the empty string or the required list (\<open>ips\<close>) or map (\<open>data\<close>)
  argument is nil. \<open>Phone\<close> checks \<open>phone\<close> before \<open>countryCode\<close> and names the
  first one that is empty. A list or map that is not nil, empty or not, is never
  reported as missing: \<open>BulkLookup\<close> goes on to validate \<open>params\<close> and \<open>lang\<close>
  and, when both pass, hands its payload to the GET executor, and \<open>Payment\<close> hands its
  payload to the POST executor.
\<close>

theorem missing_required_input:
  "Lookup g env target [] params lang = (Returned (None, Some (MissingParameter ''ip'')), [])
   \<and> Threats g env target [] = (Returned (None, Some (MissingParameter ''ip'')), [])
   \<and> BulkLookup g env target None params lang
       = (Returned (None, Some (MissingParameter ''ips'')), [])
   \<and> Country g env target [] params lang
       = (Returned (None, Some (MissingParameter ''countryCode'')), [])
   \<and> Profanity g env target [] = (Returned (None, Some (MissingParameter ''text'')), [])
   \<and> AsnLookup g env target [] = (Returned (None, Some (MissingParameter ''asn'')), [])
   \<and> Email g env target [] = (Returned (None, Some (MissingParameter ''email'')), [])
   \<and> Phone g env target [] countryCode
       = (Returned (None, Some (MissingParameter ''phone'')), [])
   \<and> (phone \<noteq> [] \<longrightarrow> Phone g env target phone []
       = (Returned (None, Some (MissingParameter ''countryCode'')), []))
   \<and> IBAN g env target [] = (Returned (None, Some (MissingParameter ''iban'')), [])
   \<and> Payment g env target None = (Returned (None, Some (MissingParameter ''data'')), [])
   \<and> fst (BulkLookup g env target (Some xs) params lang)
       \<noteq> Returned (None, Some (MissingParameter p))
   \<and> (validateParams (elems params) availableGeoIPParams = None
        \<and> validateLang env (if lang = [] then ''EN'' else hd lang) = None
      \<longrightarrow> BulkLookup g env target (Some xs) params lang =
           returnResponse (getRequest g env ''BulkLookup'' target
             [Some [''ips'' \<mapsto> JStr (Join xs '',''),
                    ''params'' \<mapsto> JStr (Join (elems params) '',''),
                    ''lang'' \<mapsto> JStr (ToUpper env (if lang = [] then ''EN'' else hd lang))]]))
   \<and> fst (Payment g env target (Some d)) \<noteq> Returned (None, Some (MissingParameter p))
   \<and> Payment g env target (Some d) =
        returnResponse (postRequest g env ''paymentFraud'' target (Some [''data'' \<mapsto> JObj d]))"
proof -
  have nil: "Lookup g env target [] params lang
        = (Returned (None, Some (MissingParameter ''ip'')), [])
   \<and> Threats g env target [] = (Returned (None, Some (MissingParameter ''ip'')), [])
   \<and> BulkLookup g env target None params lang
       = (Returned (None, Some (MissingParameter ''ips'')), [])
   \<and> Country g env target [] params lang
       = (Returned (None, Some (MissingParameter ''countryCode'')), [])
   \<and> Profanity g env target [] = (Returned (None, Some (MissingParameter ''text'')), [])
   \<and> AsnLookup g env target [] = (Returned (None, Some (MissingParameter ''asn'')), [])
   \<and> Email g env target [] = (Returned (None, Some (MissingParameter ''email'')), [])
   \<and> Phone g env target [] countryCode
       = (Returned (None, Some (MissingParameter ''phone'')), [])
   \<and> (phone \<noteq> [] \<longrightarrow> Phone g env target phone []
       = (Returned (None, Some (MissingParameter ''countryCode'')), []))
   \<and> IBAN g env target [] = (Returned (None, Some (MissingParameter ''iban'')), [])
   \<and> Payment g env target None = (Returned (None, Some (MissingParameter ''data'')), [])"
    by (simp add: Lookup_def Threats_def BulkLookup_def Country_def Profanity_def AsnLookup_def
        Email_def Phone_def IBAN_def Payment_def)
  have b1: "fst (BulkLookup g env target (Some xs) params lang)
       \<noteq> Returned (None, Some (MissingParameter p))"
    by (rule BulkLookup_not_missing)
  have b2: "validateParams (elems params) availableGeoIPParams = None
        \<and> validateLang env (if lang = [] then ''EN'' else hd lang) = None
      \<longrightarrow> BulkLookup g env target (Some xs) params lang =
           returnResponse (getRequest g env ''BulkLookup'' target
             [Some [''ips'' \<mapsto> JStr (Join xs '',''),
                    ''params'' \<mapsto> JStr (Join (elems params) '',''),
                    ''lang'' \<mapsto> JStr (ToUpper env (if lang = [] then ''EN'' else hd lang))]])"
    by (intro impI, elim conjE) (rule BulkLookup_valid)
  have p1: "fst (Payment g env target (Some d)) \<noteq> Returned (None, Some (MissingParameter p))"
    by (rule Payment_not_missing)
  have p2: "Payment g env target (Some d) =
        returnResponse (postRequest g env ''paymentFraud'' target (Some [''data'' \<mapsto> JObj d]))"
    by (simp add: Payment_def)
  from nil b1 b2 p1 p2 show ?thesis by (elim conjE) (intro conjI)
qed

theorem missing_required_input_witness:
  "''+15550100'' \<noteq> []
   \<and> Phone liveClient (exampleLib ok200 successData) ''zero'' ''+15550100'' []
       = (Returned (None, Some (MissingParameter ''countryCode'')), [])
   \<and> validateParams (elems None) availableGeoIPParams = None
   \<and> validateLang (exampleLib ok200 successData) ''EN'' = None
   \<and> BulkLookup liveClient (exampleLib ok200 successData) ''zero'' (Some []) None [] =
        returnResponse (getRequest liveClient (exampleLib ok200 successData) ''BulkLookup''
          ''zero'' [Some [''ips'' \<mapsto> JStr [], ''params'' \<mapsto> JStr [], ''lang'' \<mapsto> JStr ''EN'']])"
proof -
  let ?env = "exampleLib ok200 successData"
  have n: "''+15550100'' \<noteq> []" by simp
  note T = missing_required_input [where g = liveClient and env = ?env
      and target = "''zero''" and phone = "''+15550100''" and xs = "[]" and params = None
      and lang = "[]"]
  from T [THEN conjunct2, THEN conjunct2, THEN conjunct2, THEN conjunct2, THEN conjunct2,
      THEN conjunct2, THEN conjunct2, THEN conjunct2, THEN conjunct1] n
  have 1: "Phone liveClient ?env ''zero'' ''+15550100'' []
       = (Returned (None, Some (MissingParameter ''countryCode'')), [])" by (rule mp)
  have v: "validateParams (elems None) availableGeoIPParams = None"
    by (simp add: elems_def)
  have l: "validateLang ?env ''EN'' = None"
    by (rule validateLang_EN)
  from v l have h: "validateParams (elems None) availableGeoIPParams = None
      \<and> validateLang ?env (if [] = [] then ''EN'' else hd []) = None"
    by simp
  note B = T [THEN conjunct2, THEN conjunct2, THEN conjunct2, THEN conjunct2, THEN conjunct2,
      THEN conjunct2, THEN conjunct2, THEN conjunct2, THEN conjunct2, THEN conjunct2,
      THEN conjunct2, THEN conjunct2, THEN conjunct1, THEN mp, OF h]
  from B have 2: "BulkLookup liveClient ?env ''zero'' (Some []) None [] =
        returnResponse (getRequest liveClient ?env ''BulkLookup''
          ''zero'' [Some [''ips'' \<mapsto> JStr [], ''params'' \<mapsto> JStr [], ''lang'' \<mapsto> JStr ''EN'']])"
    by (simp add: ToUpper_EN elems_def)
  from n 1 v l 2 show ?thesis by (intro conjI)
qed

text \<open>
  Claim C2 as stated fails for a list or map that is empty but not nil. In the example
  library, where the URL parses and the server answers 200 with a success envelope,
  \<open>BulkLookup\<close> with \<open>[]string{}\<close> and \<open>Payment\<close> with an empty map do not fail
  with \<open>MissingParameter\<close>: each sends one request and returns a result.
\<close>

theorem empty_list_or_map_is_sent_counterexample:
  "fst (BulkLookup liveClient (exampleLib ok200 successData) ''zero'' (Some []) None [])
     = Returned (Some ''json'', None)
   \<and> length (snd (BulkLookup liveClient (exampleLib ok200 successData) ''zero'' (Some []) None []))
     = 1
   \<and> fst (Payment liveClient (exampleLib ok200 successData) ''zero'' emptyData)
     = Returned (Some ''json'', None)
   \<and> length (snd (Payment liveClient (exampleLib ok200 successData) ''zero'' emptyData))
     = 1"
  by (simp add: BulkLookup_def Payment_def returnResponse_def getRequest_def postRequest_def
      setTestMode_def elems_def mapValue_def handleResponse_def decodeEnvelope_def
      statusIsError_def validateLang_def allowedLangs_def availableGeoIPParams_def
      example_defs case_defs)

text \<open>
  Claim C8, at a call answered with status 200 and the envelope
  \<open>{"status": "error"}\<close>: \<open>Lookup\<close> and \<open>Payment\<close> panic in the envelope decoder
  (the unchecked type assertion of helpers.go, lines 62 and 130), so the caller gets
  neither a result nor an error. On every call that returns, exactly one of the result
  and the error is nil (\<open>endpoints_result_xor_error\<close>), and a result is the target
  of a \<open>json.Unmarshal\<close> that reported no error (\<open>returnResponse_shape\<close>,
  \<open>getRequest_success\<close>, \<open>handleResponse_success\<close>).
\<close>

theorem endpoint_panics_on_error_without_description:
  "fst (Lookup liveClient (exampleLib ok200 errorNoDescription) ''zero'' ''1.1.1.1'' None [])
     = Panicked InterfaceConversion
   \<and> fst (Payment liveClient (exampleLib ok200 errorNoDescription) ''zero'' emptyData)
     = Panicked InterfaceConversion"
  by (simp add: Lookup_def Payment_def returnResponse_def getRequest_def postRequest_def
      setTestMode_def elems_def mapValue_def handleResponse_def decodeEnvelope_def
      statusIsError_def validateLang_def allowedLangs_def availableGeoIPParams_def
      example_defs case_defs)

end
